theory Spec2Isabelle
  imports Main "HOL-Library.AList"
begin


section \<open>JavaScript values\<close>

text \<open>
  Request bodies, identity-provider metadata and provider payloads are JSON data, so a
  value is a finite tree. \<open>JUndefined\<close> is the value of a missing property or an absent
  body. Numbers are the integer-valued ones; strings are lists of code units below
  256. An object is the list of its own enumerable properties in enumeration order; a
  well-formed object has distinct keys.
\<close>

datatype jsval =
    JUndefined
  | JNull
  | JBool bool
  | JNum int
  | JStr string
  | JArr "jsval list"
  | JObj "(string \<times> jsval) list"

datatype js_error = TypeError | SyntaxError | Error string

text \<open>ToBoolean, as used by \<open>!x\<close>, \<open>x || y\<close>, \<open>x && y\<close> and \<open>if (x)\<close>.\<close>

fun truthy :: "jsval \<Rightarrow> bool" where
  "truthy JUndefined = False"
| "truthy JNull = False"
| "truthy (JBool b) = b"
| "truthy (JNum n) = (n \<noteq> 0)"
| "truthy (JStr s) = (s \<noteq> [])"
| "truthy (JArr xs) = True"
| "truthy (JObj kvs) = True"

text \<open>The \<open>typeof\<close> operator: \<open>null\<close> and arrays are of type \<open>object\<close>.\<close>

fun js_typeof :: "jsval \<Rightarrow> string" where
  "js_typeof JUndefined = ''undefined''"
| "js_typeof JNull = ''object''"
| "js_typeof (JBool b) = ''boolean''"
| "js_typeof (JNum n) = ''number''"
| "js_typeof (JStr s) = ''string''"
| "js_typeof (JArr xs) = ''object''"
| "js_typeof (JObj kvs) = ''object''"

text \<open>\<open>a || b\<close>\<close>

definition js_or :: "jsval \<Rightarrow> jsval \<Rightarrow> jsval" where
  "js_or a b = (if truthy a then a else b)"

section \<open>HTTP requests and responses\<close>

record request =
  req_method :: string
  req_authorization :: "string option"
  req_body :: jsval

text \<open>
  A response under construction: the headers set so far, the status, and the JSON
  payload (\<open>None\<close> after \<open>res.end()\<close>, which sends no body).
\<close>

record response =
  res_headers :: "(string \<times> string list) list"
  res_status :: nat
  res_body :: "jsval option"

definition setHeader :: "string \<Rightarrow> string list \<Rightarrow> response \<Rightarrow> response" where
  "setHeader name val res =
     res\<lparr>res_headers := AList.update name val (res_headers res)\<rparr>"

definition fresh_response :: response where
  "fresh_response = \<lparr>res_headers = [], res_status = 200, res_body = None\<rparr>"


section \<open>Profile intake endpoint (api/profile.js)\<close>

text \<open>
  The clock is a parameter: \<open>now\<close> is the value of \<open>new Date().toISOString()\<close> at the
  time of the request. Inside the \<open>try\<close> block the only operations are the checks
  on the body, a log of its serialisation (which cannot raise for a JSON value and is
  not part of the response) and the reply, so the \<open>catch\<close> branch has no execution
  in this model.
\<close>

definition profile_cors :: "response \<Rightarrow> response" where
  "profile_cors res =
     setHeader ''Access-Control-Allow-Headers'' [''Content-Type, X-API-Key'']
       (setHeader ''Access-Control-Allow-Methods'' [''GET, POST, OPTIONS'']
         (setHeader ''Access-Control-Allow-Origin'' [''*''] res))"

text \<open>
  \<open>res.status(code).json(payload)\<close> sends the text \<open>JSON.stringify(payload)\<close>.
  The body of the response is the JSON value that text denotes: a property whose value
  is \<open>undefined\<close> is not in it, and an \<open>undefined\<close> array element is \<open>null\<close>.
\<close>

fun wire :: "jsval \<Rightarrow> jsval" where
  "wire (JArr xs) = JArr (map (\<lambda>x. if x = JUndefined then JNull else wire x) xs)"
| "wire (JObj kvs) =
     JObj (map (\<lambda>kv. (fst kv, wire (snd kv))) (filter (\<lambda>kv. snd kv \<noteq> JUndefined) kvs))"
| "wire v = v"

definition res_json :: "nat \<Rightarrow> jsval \<Rightarrow> response \<Rightarrow> response" where
  "res_json code payload res = res\<lparr>res_status := code, res_body := Some (wire payload)\<rparr>"

definition res_end :: "nat \<Rightarrow> response \<Rightarrow> response" where
  "res_end code res = res\<lparr>res_status := code, res_body := None\<rparr>"

definition profile_handler :: "string \<Rightarrow> request \<Rightarrow> response" where
  "profile_handler now req =
     (let res = profile_cors fresh_response in
      if req_method req = ''OPTIONS'' then res_end 200 res
      else if req_method req \<noteq> ''POST'' then
        res_json 405 (JObj [(''error'', JStr ''Method not allowed'')]) res
      else
        let profile = js_or (req_body req) (JObj []) in
        if \<not> truthy profile \<or> js_typeof profile \<noteq> ''object'' then
          res_json 400 (JObj [(''error'', JStr ''Invalid profile payload'')]) res
        else
          res_json 200 (JObj [(''ok'', JBool True), (''receivedAt'', JStr now)]) res)"

section \<open>Strings\<close>

text \<open>\<open>s.startsWith(p)\<close>, \<open>s.endsWith(p)\<close>, \<open>s.includes(c)\<close> for a one-character \<open>c\<close>.\<close>

definition startsWith :: "string \<Rightarrow> string \<Rightarrow> bool" where
  "startsWith s p = (take (length p) s = p)"

definition endsWith :: "string \<Rightarrow> string \<Rightarrow> bool" where
  "endsWith s p = (length p \<le> length s \<and> drop (length s - length p) s = p)"

definition str_includes :: "string \<Rightarrow> char \<Rightarrow> bool" where
  "str_includes s c = (c \<in> set s)"

text \<open>\<open>s.split(c)\<close> for a one-character separator: never the empty list.\<close>

fun split_on :: "char \<Rightarrow> string \<Rightarrow> string list" where
  "split_on c [] = [[]]"
| "split_on c (x # xs) =
     (if x = c then [] # split_on c xs
      else (case split_on c xs of
              [] \<Rightarrow> [[x]]
            | p # ps \<Rightarrow> (x # p) # ps))"

text \<open>\<open>s.slice(0, e)\<close>: a negative end counts from the end of the string.\<close>

definition slice0 :: "string \<Rightarrow> int \<Rightarrow> string" where
  "slice0 s e = (if e < 0 then take (nat (int (length s) + e)) s else take (nat e) s)"

text \<open>\<open>parts.join(sep)\<close>\<close>

fun join :: "string \<Rightarrow> string list \<Rightarrow> string" where
  "join sep [] = []"
| "join sep [p] = p"
| "join sep (p # q # ps) = p @ sep @ join sep (q # ps)"

text \<open>Decimal notation of a number with an integer value.\<close>

function show_nat :: "nat \<Rightarrow> string" where
  "show_nat n =
     (if n < 10 then [''0123456789'' ! n]
      else show_nat (n div 10) @ [''0123456789'' ! (n mod 10)])"
  by pat_completeness auto
termination
  by (relation "measure (\<lambda>n. n)") auto

definition show_int :: "int \<Rightarrow> string" where
  "show_int i = (if i < 0 then CHR ''-'' # show_nat (nat (- i)) else show_nat (nat i))"

text \<open>
  The text JavaScript prints for a number with an integer value. In the safe range
  (magnitudes below \<open>2^53\<close>) that is the decimal numeral. Outside it the text depends
  on the rounding of the number (from \<open>10^21\<close> on it is in exponent form); it is left
  open here, so that what is proved holds whatever that text is.
\<close>

definition number_text :: "int \<Rightarrow> string" where
  "number_text n = (if \<bar>n\<bar> < 2 ^ 53 then show_int n else undefined n)"

section \<open>Conversions and property access\<close>

text \<open>
  ToString, as applied by template literals and by a computed property key. A JSON
  object has no callable property of its own, so an object with an own \<open>toString\<close>
  property has no way to a primitive and the conversion raises a TypeError; any other
  object inherits \<open>Object.prototype.toString\<close>. An array joins its elements with
  commas, \<open>null\<close> and \<open>undefined\<close> elements as the empty string.
\<close>

fun sequence :: "(js_error + 'a) list \<Rightarrow> js_error + 'a list" where
  "sequence [] = Inr []"
| "sequence (Inl e # rs) = Inl e"
| "sequence (Inr x # rs) = (case sequence rs of Inl e \<Rightarrow> Inl e | Inr xs \<Rightarrow> Inr (x # xs))"

fun to_string :: "jsval \<Rightarrow> js_error + string" where
  "to_string JUndefined = Inr ''undefined''"
| "to_string JNull = Inr ''null''"
| "to_string (JBool b) = Inr (if b then ''true'' else ''false'')"
| "to_string (JNum n) = Inr (number_text n)"
| "to_string (JStr s) = Inr s"
| "to_string (JArr xs) =
     (case sequence (map (\<lambda>x. if x = JUndefined \<or> x = JNull then Inr [] else to_string x) xs) of
        Inl e \<Rightarrow> Inl e
      | Inr parts \<Rightarrow> Inr (join '','' parts))"
| "to_string (JObj kvs) =
     (if ''toString'' \<in> set (map fst kvs) then Inl TypeError else Inr ''[object Object]'')"

text \<open>
  The value of an own property, \<open>undefined\<close> when there is none. Strings and arrays
  have \<open>length\<close> and their indices.
\<close>

definition index_of_key :: "nat \<Rightarrow> string \<Rightarrow> nat option" where
  "index_of_key n k = find (\<lambda>i. show_nat i = k) [0..<n]"

fun get_own :: "jsval \<Rightarrow> string \<Rightarrow> jsval" where
  "get_own (JObj kvs) k = (case map_of kvs k of Some v \<Rightarrow> v | None \<Rightarrow> JUndefined)"
| "get_own (JArr xs) k =
     (if k = ''length'' then JNum (int (length xs))
      else (case index_of_key (length xs) k of Some i \<Rightarrow> xs ! i | None \<Rightarrow> JUndefined))"
| "get_own (JStr s) k =
     (if k = ''length'' then JNum (int (length s))
      else (case index_of_key (length s) k of Some i \<Rightarrow> JStr [s ! i] | None \<Rightarrow> JUndefined))"
| "get_own v k = JUndefined"

text \<open>
  \<open>v[k]\<close> and \<open>v.k\<close>, for the property names that no prototype object defines (all
  reads of the program but the tier table's, modelled apart): reading a property of
  \<open>null\<close> or \<open>undefined\<close> raises a TypeError.
\<close>

definition get_prop :: "jsval \<Rightarrow> string \<Rightarrow> js_error + jsval" where
  "get_prop v k = (if v = JUndefined \<or> v = JNull then Inl TypeError else Inr (get_own v k))"

text \<open>\<open>Object.keys(v)\<close>\<close>

fun object_keys :: "jsval \<Rightarrow> js_error + string list" where
  "object_keys JUndefined = Inl TypeError"
| "object_keys JNull = Inl TypeError"
| "object_keys (JBool b) = Inr []"
| "object_keys (JNum n) = Inr []"
| "object_keys (JStr s) = Inr (map show_nat [0..<length s])"
| "object_keys (JArr xs) = Inr (map show_nat [0..<length xs])"
| "object_keys (JObj kvs) = Inr (map fst kvs)"

text \<open>
  The assignment \<open>a[k] = v\<close> on an ordinary object: the key \<open>__proto__\<close> is the
  accessor of \<open>Object.prototype\<close>, whose setter changes the prototype and adds no own
  property. A property defined by an object literal or a spread is always an own
  property.
\<close>

fun assign_prop :: "jsval \<Rightarrow> string \<Rightarrow> jsval \<Rightarrow> jsval" where
  "assign_prop (JObj kvs) k v = (if k = ''__proto__'' then JObj kvs else JObj (AList.update k v kvs))"
| "assign_prop a k v = a"

fun define_prop :: "jsval \<Rightarrow> string \<Rightarrow> jsval \<Rightarrow> jsval" where
  "define_prop (JObj kvs) k v = JObj (AList.update k v kvs)"
| "define_prop a k v = a"

text \<open>Sequencing of steps that may raise.\<close>

definition bind_err :: "js_error + 'a \<Rightarrow> ('a \<Rightarrow> js_error + 'b) \<Rightarrow> js_error + 'b" where
  "bind_err m f = (case m of Inl e \<Rightarrow> Inl e | Inr x \<Rightarrow> f x)"

section \<open>JSON.stringify\<close>

text \<open>
  The escapes of a string literal: the quote, the backslash, the five short escapes
  and \<open>\u00XX\<close> for the other control characters.
\<close>

definition json_escape :: "char \<Rightarrow> string" where
  "json_escape c =
     (let n = (of_char c :: nat) in
      if n = 0x22 then [CHR 0x5C, CHR 0x22]
      else if n = 0x5C then [CHR 0x5C, CHR 0x5C]
      else if n = 0x08 then [CHR 0x5C, CHR ''b'']
      else if n = 0x09 then [CHR 0x5C, CHR ''t'']
      else if n = 0x0A then [CHR 0x5C, CHR ''n'']
      else if n = 0x0C then [CHR 0x5C, CHR ''f'']
      else if n = 0x0D then [CHR 0x5C, CHR ''r'']
      else if n < 0x20 then
        [CHR 0x5C, CHR ''u'', CHR ''0'', CHR ''0'',
         ''0123456789abcdef'' ! (n div 16), ''0123456789abcdef'' ! (n mod 16)]
      else [c])"

definition json_quote :: "string \<Rightarrow> string" where
  "json_quote s = CHR 0x22 # concat (map json_escape s) @ [CHR 0x22]"

text \<open>
  \<open>JSON.stringify(v)\<close> without indentation; \<open>None\<close> is the result \<open>undefined\<close>.
  A property whose value is \<open>undefined\<close> is left out, an \<open>undefined\<close> array element
  is written \<open>null\<close>. A JSON value has no cycle, no BigInt and no callable \<open>toJSON\<close>,
  so the call does not raise.
\<close>

fun JSON_stringify :: "jsval \<Rightarrow> string option" where
  "JSON_stringify JUndefined = None"
| "JSON_stringify JNull = Some ''null''"
| "JSON_stringify (JBool b) = Some (if b then ''true'' else ''false'')"
| "JSON_stringify (JNum n) = Some (number_text n)"
| "JSON_stringify (JStr s) = Some (json_quote s)"
| "JSON_stringify (JArr xs) =
     Some (''['' @ join '',''
        (map (\<lambda>x. case JSON_stringify x of None \<Rightarrow> ''null'' | Some t \<Rightarrow> t) xs) @ '']'')"
| "JSON_stringify (JObj kvs) =
     Some (''{'' @ join '',''
        (concat (map (\<lambda>kv. case JSON_stringify (snd kv) of
                               None \<Rightarrow> []
                             | Some t \<Rightarrow> [json_quote (fst kv) @ '':'' @ t]) kvs)) @ ''}'')"

section \<open>Tiers and the usage limiter (api/claude.js)\<close>

record tier_config =
  dailyLimit :: nat
  tier_name :: string

definition TIER_CONFIG :: "(string \<times> tier_config) list" where
  "TIER_CONFIG =
     [(''free'', \<lparr>dailyLimit = 12, tier_name = ''Gratuit''\<rparr>),
      (''beta'', \<lparr>dailyLimit = 25, tier_name = ''Beta''\<rparr>),
      (''premium'', \<lparr>dailyLimit = 25, tier_name = ''Premium''\<rparr>)]"

text \<open>
  \<open>TIER_CONFIG\<close> is an object literal, so a read \<open>TIER_CONFIG[k]\<close> that finds no own
  property continues in \<open>Object.prototype\<close>, whose properties are functions (and,
  for \<open>__proto__\<close>, the prototype object itself): truthy values without a
  \<open>dailyLimit\<close>.
\<close>

definition object_prototype_keys :: "string list" where
  "object_prototype_keys =
     [''constructor'', ''__defineGetter__'', ''__defineSetter__'', ''hasOwnProperty'',
      ''__lookupGetter__'', ''__lookupSetter__'', ''isPrototypeOf'',
      ''propertyIsEnumerable'', ''toString'', ''valueOf'', ''__proto__'',
      ''toLocaleString'']"

datatype 'a property = Own 'a | Inherited | Missing

definition literal_lookup :: "(string \<times> 'a) list \<Rightarrow> string \<Rightarrow> 'a property" where
  "literal_lookup tbl k =
     (case map_of tbl k of
        Some c \<Rightarrow> Own c
      | None \<Rightarrow> if k \<in> set object_prototype_keys then Inherited else Missing)"

text \<open>\<open>tierConfig.dailyLimit\<close> on a truthy \<open>tierConfig\<close>.\<close>

fun dailyLimit_of :: "tier_config property \<Rightarrow> jsval" where
  "dailyLimit_of (Own c) = JNum (int (dailyLimit c))"
| "dailyLimit_of Inherited = JUndefined"
| "dailyLimit_of Missing = JUndefined"

text \<open>
  \<open>a >= b\<close> with a number on the left and a number or \<open>undefined\<close> on the right:
  \<open>undefined\<close> converts to NaN, and every comparison with NaN is false.
\<close>

fun js_ge :: "jsval \<Rightarrow> jsval \<Rightarrow> bool" where
  "js_ge (JNum a) (JNum b) = (b \<le> a)"
| "js_ge a b = False"

text \<open>
  An identity-provider user, with the fields the program reads. \<open>primaryEmailAddress\<close>
  is the \<open>emailAddress\<close> string of the primary e-mail object, \<open>None\<close> when the user
  has none; the metadata bags are arbitrary JSON.
\<close>

record user =
  user_id :: string
  firstName :: "string option"
  primaryEmailAddress :: "string option"
  publicMetadata :: jsval
  privateMetadata :: jsval

definition getUserTier :: "user \<Rightarrow> js_error + jsval" where
  "getUserTier u =
     (let pubMeta = js_or (publicMetadata u) (JObj []);
          privMeta = js_or (privateMetadata u) (JObj [])
      in bind_err (get_prop privMeta ''tier'') (\<lambda>privTier.
         if truthy privTier then Inr privTier
         else bind_err (get_prop pubMeta ''tier'') (\<lambda>pubTier.
         if truthy pubTier then Inr pubTier
         else
           let email = (case primaryEmailAddress u of
                          Some a \<Rightarrow> if a \<noteq> [] then a else []
                        | None \<Rightarrow> [])
           in if endsWith email ''@atticusconseil.com'' \<or> endsWith email ''@atticus.com''
              then Inr (JStr ''beta'')
              else bind_err (get_prop pubMeta ''betaAccess'') (\<lambda>betaAccess.
                   if truthy betaAccess then Inr (JStr ''beta'') else Inr (JStr ''free'')))))"

text \<open>
  The result of \<open>checkUsageLimit\<close>; a field the returned object does not have reads
  as \<open>undefined\<close>.
\<close>

record usage_check =
  allowed :: bool
  reason :: jsval
  usage :: jsval

text \<open>
  The day's usage key is computed and never read; the count is the constant 0. The
  conversion of \<open>userTier\<close> to a property key is the one step of the \<open>try\<close> block
  that can raise.
\<close>

definition checkUsageLimit :: "string \<Rightarrow> jsval \<Rightarrow> usage_check" where
  "checkUsageLimit userId userTier =
     (case to_string userTier of
        Inl e \<Rightarrow>
          \<lparr>allowed = False, reason = JStr ''Usage check failed'', usage = JUndefined\<rparr>
      | Inr key \<Rightarrow>
          let tierConfig = literal_lookup TIER_CONFIG key in
          if tierConfig = Missing then
            \<lparr>allowed = False, reason = JStr ''Invalid user tier'', usage = JUndefined\<rparr>
          else
            let currentUsage = JNum 0; limit = dailyLimit_of tierConfig in
            if js_ge currentUsage limit then
              (case to_string limit of
                 Inl e \<Rightarrow>
                   \<lparr>allowed = False, reason = JStr ''Usage check failed'', usage = JUndefined\<rparr>
               | Inr l \<Rightarrow>
                   \<lparr>allowed = False,
                    reason = JStr (''Daily limit of '' @ l @ '' messages exceeded''),
                    usage = JObj [(''used'', currentUsage), (''limit'', limit)]\<rparr>)
            else
              \<lparr>allowed = True, reason = JUndefined,
               usage = JObj [(''used'', currentUsage), (''limit'', limit)]\<rparr>)"

text \<open>\<open>incrementUsage\<close> writes a log line and returns \<open>true\<close>.\<close>

definition incrementUsage :: "string \<Rightarrow> bool" where
  "incrementUsage userId = True"

section \<open>System prompt composition\<close>

text \<open>
  The body of the \<open>try\<close> block of \<open>safeJSONString\<close>, with \<open>JSON.stringify\<close> as
  a parameter: a serialiser raises (a cycle, a BigInt), returns \<open>undefined\<close>
  (\<open>None\<close>) or returns a string. Reading \<open>length\<close> of \<open>undefined\<close> raises a
  TypeError, as does \<open>Object.keys\<close> of \<open>null\<close> or \<open>undefined\<close>.
\<close>

definition safeJSONString_try ::
  "(jsval \<Rightarrow> js_error + string option) \<Rightarrow> jsval \<Rightarrow> int \<Rightarrow> js_error + string" where
  "safeJSONString_try stringify obj maxLen =
     bind_err (stringify obj) (\<lambda>r.
     case r of
       None \<Rightarrow> Inl TypeError
     | Some s \<Rightarrow>
         if int (length s) \<le> maxLen then Inr s
         else
           bind_err (object_keys obj) (\<lambda>ks.
           let keys = take 20 ks in
           bind_err
             (foldl (\<lambda>a k. bind_err a (\<lambda>acc.
                       bind_err (get_prop obj k) (\<lambda>v. Inr (assign_prop acc k v))))
                (Inr (JObj [])) keys) (\<lambda>reduced.
           bind_err (stringify reduced) (\<lambda>r'.
           case r' of
             None \<Rightarrow> Inl TypeError
           | Some out \<Rightarrow>
               Inr (if int (length out) > maxLen then slice0 out (maxLen - 3) @ ''...''
                    else out)))))"

text \<open>\<open>safeJSONString\<close> for a given serialiser: the \<open>catch\<close> branch returns \<open>{}\<close>.\<close>

definition safeJSONString_with ::
  "(jsval \<Rightarrow> js_error + string option) \<Rightarrow> jsval \<Rightarrow> int \<Rightarrow> string" where
  "safeJSONString_with stringify obj maxLen =
     (case safeJSONString_try stringify obj maxLen of Inl e \<Rightarrow> ''{}'' | Inr s \<Rightarrow> s)"

text \<open>\<open>safeJSONString\<close> on JSON data, where \<open>JSON.stringify\<close> does not raise.\<close>

definition safeJSONString :: "jsval \<Rightarrow> int \<Rightarrow> string" where
  "safeJSONString obj maxLen = safeJSONString_with (\<lambda>v. Inr (JSON_stringify v)) obj maxLen"

text \<open>The text of the profile block before and after the serialised profile.\<close>

definition profile_block_head :: string where
  "profile_block_head =
    [CHR 0x0A] @ ''---'' @ [CHR 0x0A] @ ''PROFIL UTILISATEUR (r'' @ [CHR 0xE9] @ ''sum'' @
    [CHR 0xE9] @ '' JSON '' @ [CHR 0xE0] @ '' utiliser pour personnaliser sans le r'' @
    [CHR 0xE9] @ ''p'' @ [CHR 0xE9] @ ''ter mot '' @ [CHR 0xE0] @ '' mot) :'' @ [CHR 0x0A]"

definition profile_block_tail :: string where
  "profile_block_tail =
    [CHR 0x0A] @ [CHR 0x0A] @ ''Consignes de personnalisation :'' @ [CHR 0x0A] @
    ''- Adapter syst'' @ [CHR 0xE9] @
    ''matiquement recommandations au profil (objectifs, tol'' @ [CHR 0xE9] @
    ''rance au risque, horizon, capacit'' @ [CHR 0xE9] @ '' d'' @ [CHR 0x27] @ [CHR 0xE9] @
    ''pargne).'' @ [CHR 0x0A] @ ''- Ne pas r'' @ [CHR 0xE9] @
    ''imprimer le JSON brut ; int'' @ [CHR 0xE9] @ ''grer l'' @ [CHR 0x27] @
    ''info naturellement dans la r'' @ [CHR 0xE9] @ ''ponse.'' @ [CHR 0x0A] @
    ''- Privil'' @ [CHR 0xE9] @ ''gier le droit/fiscalit'' @ [CHR 0xE9] @
    '' FR et rappeler limites si info manquante/incertaine.'' @ [CHR 0x0A] @ ''---''"

text \<open>
  The base prompt is the request's \<open>system\<close> value when that is truthy, so it is any
  JSON value; the template literal converts it to a string.
\<close>

definition appendProfileToSystem :: "jsval \<Rightarrow> jsval \<Rightarrow> js_error + jsval" where
  "appendProfileToSystem baseSystem profile =
     (if \<not> truthy profile \<or> js_typeof profile \<noteq> ''object'' then Inr baseSystem
      else
        let json = safeJSONString profile 4000;
            block = profile_block_head @ json @ profile_block_tail
        in bind_err (to_string baseSystem) (\<lambda>b. Inr (JStr (b @ [CHR 0x0A] @ block))))"

section \<open>The environment of the chat handler\<close>

text \<open>
  The identity provider's client. A call raises (\<open>Inl\<close>) or resolves (\<open>Inr\<close>):
  \<open>getSession\<close> to the session's \<open>userId\<close>, \<open>verifyToken\<close> to the \<open>sub\<close> claim of
  the verified token, \<open>getUser\<close> to the user; \<open>None\<close> is a falsy result (for
  \<open>verifyToken\<close> also a token without \<open>sub\<close>).
\<close>

record clerk_client =
  getSession :: "string \<Rightarrow> js_error + string option"
  verifyToken :: "string \<Rightarrow> js_error + string option"
  getUser :: "string \<Rightarrow> js_error + user option"

text \<open>
  The request sent to the LLM provider, and its response: the status, the result of
  \<open>resp.text()\<close> (which raises when the body cannot be read) and the result of
  \<open>resp.json()\<close> (\<open>None\<close> when it raises: the body cannot be read or is not JSON).
\<close>

record provider_request =
  pr_url :: string
  pr_method :: string
  pr_headers :: "(string \<times> string) list"
  pr_body :: string

record provider_response =
  resp_status :: nat
  resp_text :: "js_error + string"
  resp_json :: "jsval option"

text \<open>\<open>resp.ok\<close>\<close>

definition resp_ok :: "provider_response \<Rightarrow> bool" where
  "resp_ok r = (200 \<le> resp_status r \<and> resp_status r \<le> 299)"

text \<open>
  Everything the handler reads from outside the request: the identity provider, the
  decoder \<open>Buffer.from(token, 'base64').toString('utf-8')\<close> (total: it skips what is
  not base64 and replaces malformed UTF-8), the environment variables, the provider
  behind \<open>fetch\<close>, the value of \<open>new Date().setHours(24, 0, 0, 0)\<close>, and the text of
  the default persona (lines 300 to 352, never inspected).
\<close>

record env =
  clerkClient :: clerk_client
  base64_utf8 :: "string \<Rightarrow> string"
  CLAUDE_API_KEY :: "string option"
  NODE_ENV :: "string option"
  fetch :: "provider_request \<Rightarrow> js_error + provider_response"
  next_midnight :: int
  default_persona :: string

section \<open>Authentication resolver\<close>

text \<open>The body of the first \<open>try\<close> block: the session lookup.\<close>

definition try_session :: "clerk_client \<Rightarrow> string \<Rightarrow> js_error + user option" where
  "try_session clerk token =
     bind_err (getSession clerk token) (\<lambda>session.
       case session of
         None \<Rightarrow> Inr None
       | Some userId \<Rightarrow> getUser clerk userId)"

text \<open>The body of the second \<open>try\<close> block: the verified-token lookup.\<close>

definition try_jwt :: "clerk_client \<Rightarrow> string \<Rightarrow> js_error + user option" where
  "try_jwt clerk token =
     bind_err (verifyToken clerk token) (\<lambda>verifiedToken.
       case verifiedToken of
         None \<Rightarrow> Inr None
       | Some sub \<Rightarrow> if sub \<noteq> [] then getUser clerk sub else Inr None)"

text \<open>
  The innermost \<open>try\<close> block (lines 93 to 105). It assigns the variable \<open>user\<close>
  before it compares the e-mail addresses, so the result is the value of \<open>user\<close> when
  the block is left together with the error raised, if any. Reading
  \<open>primaryEmailAddress\<close> of a falsy user raises a TypeError.
\<close>

definition try_base64 ::
  "clerk_client \<Rightarrow> (string \<Rightarrow> string) \<Rightarrow> string \<Rightarrow> user option \<times> js_error option" where
  "try_base64 clerk decode token =
     (let decoded = decode token in
      if str_includes decoded CHR '':'' then
        (case split_on CHR '':'' decoded of
           email # userId # rest \<Rightarrow>
             if email \<noteq> [] \<and> userId \<noteq> [] then
               (case getUser clerk userId of
                  Inl e \<Rightarrow> (None, Some e)
                | Inr None \<Rightarrow> (None, Some TypeError)
                | Inr (Some u) \<Rightarrow>
                    if primaryEmailAddress u \<noteq> Some email
                    then (Some u, Some (Error ''Email mismatch''))
                    else (Some u, None))
             else (None, None)
         | _ \<Rightarrow> (None, None))
      else (None, None))"

text \<open>
  The third \<open>try\<close> block (lines 90 to 115): the value of \<open>user\<close> after it. The
  handler of the inner block calls the direct lookup; when that call raises, the outer
  handler only logs, and \<open>user\<close> keeps the value it had.
\<close>

definition try_fallback :: "clerk_client \<Rightarrow> (string \<Rightarrow> string) \<Rightarrow> string \<Rightarrow> user option" where
  "try_fallback clerk decode token =
     (if \<not> str_includes token CHR '':'' \<and> 20 < length token then
        (case try_base64 clerk decode token of
           (u, None) \<Rightarrow> u
         | (u, Some base64Error) \<Rightarrow>
             (case getUser clerk token of
                Inr u' \<Rightarrow> u'
              | Inl fallbackError \<Rightarrow> u))
      else
        (case getUser clerk token of
           Inr u' \<Rightarrow> u'
         | Inl fallbackError \<Rightarrow> None))"

datatype auth_result =
    AuthFailure string nat
  | AuthSuccess user jsval string

text \<open>
  \<open>authenticateUser\<close>. The template literal of the log line converts the tier to a
  string inside the outer \<open>try\<close> block.
\<close>

definition authenticateUser :: "env \<Rightarrow> request \<Rightarrow> auth_result" where
  "authenticateUser e req =
     (case req_authorization req of
        None \<Rightarrow> AuthFailure ''Missing or invalid authorization header'' 401
      | Some authHeader \<Rightarrow>
          if authHeader = [] \<or> \<not> startsWith authHeader ''Bearer '' then
            AuthFailure ''Missing or invalid authorization header'' 401
          else
            let token = drop 7 authHeader;
                user =
                  (case try_session (clerkClient e) token of
                     Inr u \<Rightarrow> u
                   | Inl sessionError \<Rightarrow>
                       (case try_jwt (clerkClient e) token of
                          Inr u \<Rightarrow> u
                        | Inl jwtError \<Rightarrow>
                            try_fallback (clerkClient e) (base64_utf8 e) token))
            in case user of
                 None \<Rightarrow> AuthFailure ''Invalid authentication token'' 401
               | Some u \<Rightarrow>
                   (case bind_err (getUserTier u) (\<lambda>userTier.
                           bind_err (to_string userTier) (\<lambda>logged. Inr userTier)) of
                      Inl error \<Rightarrow> AuthFailure ''Authentication failed'' 401
                    | Inr userTier \<Rightarrow> AuthSuccess u userTier (user_id u)))"

section \<open>Chat proxy endpoint (api/claude.js)\<close>

text \<open>The later of the two declarations of \<open>applyCors\<close> is the one in effect.\<close>

definition applyCors :: "response \<Rightarrow> response" where
  "applyCors res =
     setHeader ''Access-Control-Max-Age'' [''86400'']
       (setHeader ''Access-Control-Allow-Headers''
          [''Content-Type, Authorization, x-user-id, x-user-tier'']
         (setHeader ''Access-Control-Allow-Methods'' [''POST, OPTIONS'']
           (setHeader ''Vary'' [''Origin'']
             (setHeader ''Access-Control-Allow-Origin'' [''*''] res))))"

text \<open>A destructured field with a default: the default replaces \<open>undefined\<close> only.\<close>

definition with_default :: "jsval \<Rightarrow> jsval \<Rightarrow> jsval" where
  "with_default v d = (if v = JUndefined then d else v)"

text \<open>
  The own enumerable properties of a value, in the order of \<open>Object.keys\<close>: what
  \<open>{...v}\<close> copies.
\<close>

fun spread_props :: "jsval \<Rightarrow> (string \<times> jsval) list" where
  "spread_props (JObj kvs) = kvs"
| "spread_props (JArr xs) = zip (map show_nat [0..<length xs]) xs"
| "spread_props (JStr s) = zip (map show_nat [0..<length s]) (map (\<lambda>c. JStr [c]) s)"
| "spread_props v = []"

text \<open>
  Lines 281 to 365: the fields of the body, the development log (which converts the
  tier to a string and reads \<open>messages.length\<close>), the system prompt and the request
  for the provider. The \<open>userTier\<close> field of the body is bound to a variable that is
  never read.
\<close>

definition build_provider_request ::
  "env \<Rightarrow> request \<Rightarrow> string \<Rightarrow> jsval \<Rightarrow> js_error + provider_request" where
  "build_provider_request e req userId userTier =
     (let b = js_or (req_body req) (JObj []);
          messages = with_default (get_own b ''messages'') (JArr []);
          model = with_default (get_own b ''model'') (JStr ''claude-sonnet-4-20250514'');
          max_tokens = with_default (get_own b ''max_tokens'') (JNum 3000);
          profile = get_own b ''profile'';
          incomingSystem = get_own b ''system'';
          clientUserTier = get_own b ''userTier''
      in bind_err
           (if NODE_ENV e \<noteq> Some ''production''
            then bind_err (to_string userTier) (\<lambda>logged. get_prop messages ''length'')
            else Inr JUndefined) (\<lambda>messagesCount.
         let BASE_SYSTEM = js_or incomingSystem (JStr (default_persona e)) in
         bind_err (appendProfileToSystem BASE_SYSTEM profile) (\<lambda>system.
         case JSON_stringify (JObj [(''model'', model), (''max_tokens'', max_tokens),
                                    (''system'', system), (''messages'', messages)]) of
           None \<Rightarrow> Inl TypeError
         | Some text \<Rightarrow>
             Inr \<lparr>pr_url = ''https://api.anthropic.com/v1/messages'',
                  pr_method = ''POST'',
                  pr_headers =
                    [(''content-type'', ''application/json''),
                     (''x-api-key'', (case CLAUDE_API_KEY e of Some k \<Rightarrow> k | None \<Rightarrow> [])),
                     (''anthropic-version'', ''2023-06-01'')],
                  pr_body = text\<rparr>)))"

text \<open>
  Lines 367 to 392: the reply for a provider response. The text of a response that is
  not \<open>ok\<close> is read and logged, and is no part of the reply.
\<close>

definition relay_provider_response ::
  "provider_response \<Rightarrow> string \<Rightarrow> jsval \<Rightarrow> js_error + nat \<times> jsval" where
  "relay_provider_response resp userId userTier =
     (if \<not> resp_ok resp then
        bind_err (resp_text resp) (\<lambda>text.
          Inr (if 500 \<le> resp_status resp then 500 else resp_status resp,
               JObj [(''error'',
                      if 500 \<le> resp_status resp then JStr ''Internal server error''
                      else JStr ''API request failed'')]))
      else
        (case resp_json resp of
           None \<Rightarrow> Inl SyntaxError
         | Some data \<Rightarrow>
             let incremented = incrementUsage userId;
                 updatedUsage = checkUsageLimit userId userTier
             in Inr (200,
                     JObj (AList.update ''userTier'' userTier
                            (AList.update ''usage'' (usage updatedUsage)
                              (spread_props data))))))"

text \<open>The body of the handler's \<open>try\<close> block: the status and the payload of the reply.\<close>

definition handler_try :: "env \<Rightarrow> request \<Rightarrow> js_error + nat \<times> jsval" where
  "handler_try e req =
     (case authenticateUser e req of
        AuthFailure error status \<Rightarrow>
          Inr (if status \<noteq> 0 then status else 401,
               JObj [(''error'', JStr (if error \<noteq> [] then error else ''Authentication failed''))])
      | AuthSuccess user userTier userId \<Rightarrow>
          let usageCheck = checkUsageLimit userId userTier in
          if \<not> allowed usageCheck then
            Inr (429,
                 JObj [(''error'', JStr ''Usage limit exceeded''),
                       (''reason'', reason usageCheck),
                       (''usage'', usage usageCheck),
                       (''userTier'', userTier),
                       (''resetTime'', JNum (next_midnight e))])
          else if CLAUDE_API_KEY e = None \<or> CLAUDE_API_KEY e = Some [] then
            Inr (500, JObj [(''error'', JStr ''Server configuration error'')])
          else
            bind_err (build_provider_request e req userId userTier) (\<lambda>preq.
            bind_err (fetch e preq) (\<lambda>resp.
            relay_provider_response resp userId userTier)))"

definition claude_handler :: "env \<Rightarrow> request \<Rightarrow> response" where
  "claude_handler e req =
     (let res = applyCors fresh_response in
      if req_method req = ''OPTIONS'' then res_end 204 res
      else if req_method req \<noteq> ''POST'' then
        res_json 405 (JObj [(''error'', JStr ''Method Not Allowed'')])
          (setHeader ''Allow'' [''POST'', ''OPTIONS''] res)
      else
        (case handler_try e req of
           Inl err \<Rightarrow> res_json 500 (JObj [(''error'', JStr ''Internal Server Error'')]) res
         | Inr (code, payload) \<Rightarrow> res_json code payload res))"

section \<open>Example data\<close>

text \<open>
  A user, an identity provider that knows one session (\<open>sess_1\<close>) of that user and
  verifies no token, and an environment around them with a provider that answers every
  request with the given response. The decoder is given at the one token the examples
  decode, the base64 form of \<open>mallory@example.org:user_1\<close>.
\<close>

definition example_user :: "jsval \<Rightarrow> user" where
  "example_user privMeta =
     \<lparr>user_id = ''user_1'', firstName = Some ''Alice'',
      primaryEmailAddress = Some ''alice@example.org'',
      publicMetadata = JObj [], privateMetadata = privMeta\<rparr>"

definition example_clerk :: "user \<Rightarrow> clerk_client" where
  "example_clerk u =
     \<lparr>getSession = (\<lambda>t. if t = ''sess_1'' then Inr (Some (user_id u))
                         else Inl (Error ''Not Found'')),
      verifyToken = (\<lambda>t. Inl (Error ''Invalid token'')),
      getUser = (\<lambda>i. if i = user_id u then Inr (Some u) else Inl (Error ''Not Found''))\<rparr>"

definition example_env :: "user \<Rightarrow> provider_response \<Rightarrow> env" where
  "example_env u resp =
     \<lparr>clerkClient = example_clerk u,
      base64_utf8 = (\<lambda>t. if t = ''bWFsbG9yeUBleGFtcGxlLm9yZzp1c2VyXzE=''
                          then ''mallory@example.org:user_1'' else []),
      CLAUDE_API_KEY = Some ''sk-test'',
      NODE_ENV = Some ''production'',
      fetch = (\<lambda>q. Inr resp),
      next_midnight = 1793750400000,
      default_persona = ''Vous etes Atticus Chat''\<rparr>"

definition example_request :: "string \<Rightarrow> jsval \<Rightarrow> request" where
  "example_request token b =
     \<lparr>req_method = ''POST'', req_authorization = Some (''Bearer '' @ token), req_body = b\<rparr>"

text \<open>
  A profile of 21 fields \<open>k1\<close> to \<open>k21\<close>, each a string of 190 characters: its
  serialisation has 4171 characters, that of its first 20 fields 3972.
\<close>

definition example_profile :: jsval where
  "example_profile =
     JObj (map (\<lambda>k. (k, JStr (replicate 190 CHR ''x'')))
        [''k1'', ''k2'', ''k3'', ''k4'', ''k5'', ''k6'', ''k7'', ''k8'', ''k9'',
         ''k10'', ''k11'', ''k12'', ''k13'', ''k14'', ''k15'', ''k16'', ''k17'',
         ''k18'', ''k19'', ''k20'', ''k21''])"

section \<open>Properties of the profile intake endpoint\<close>

lemma falsy_cases:
  "\<not> truthy v \<longleftrightarrow> v \<in> {JUndefined, JNull, JStr [], JNum 0, JBool False}"
  by (cases v) auto

lemma profile_handler_POST:
  "req_method req = ''POST'' \<Longrightarrow>
   profile_handler now req =
     (if truthy (req_body req) \<and> js_typeof (req_body req) \<noteq> ''object''
      then res_json 400 (JObj [(''error'', JStr ''Invalid profile payload'')])
             (profile_cors fresh_response)
      else res_json 200 (JObj [(''ok'', JBool True), (''receivedAt'', JStr now)])
             (profile_cors fresh_response))"
  by (cases "req_body req") (simp_all add: profile_handler_def js_or_def Let_def)

lemma res_json_sel [simp]:
  "res_status (res_json c p r) = c" "res_body (res_json c p r) = Some (wire p)"
  by (simp_all add: res_json_def)

text \<open>
  Claim C1, as the specification states it, fails: a POST with an absent body is
  answered with status 200, not 400.
\<close>

theorem profile_absent_body_counterexample:
  "res_status (profile_handler ''2026-11-03T10:00:00.000Z''
      \<lparr>req_method = ''POST'', req_authorization = None, req_body = JUndefined\<rparr>) = 200
   \<and> res_status (profile_handler ''2026-11-03T10:00:00.000Z''
      \<lparr>req_method = ''POST'', req_authorization = None, req_body = JUndefined\<rparr>) \<noteq> 400"
  by (simp add: profile_handler_POST)

text \<open>
  Claim C1, amended: a POST whose body is truthy and not of type \<open>object\<close> (a non-empty
  string, a non-zero number, \<open>true\<close>) is answered with status 400 and the error
  \<open>Invalid profile payload\<close>; a POST whose body is of type \<open>object\<close> and not null
  (a JSON object or array) or is falsy (absent, null, empty string, 0, false) is
  answered with status 200 and \<open>{ok: true, receivedAt: now}\<close>.
\<close>

theorem profile_handler_post_status:
  assumes "req_method req = ''POST''"
  shows "(truthy (req_body req) \<and> js_typeof (req_body req) \<noteq> ''object'' \<longrightarrow>
            res_status (profile_handler now req) = 400 \<and>
            res_body (profile_handler now req) =
              Some (JObj [(''error'', JStr ''Invalid profile payload'')]))
       \<and> (\<not> truthy (req_body req) \<or> js_typeof (req_body req) = ''object'' \<longrightarrow>
            res_status (profile_handler now req) = 200 \<and>
            res_body (profile_handler now req) =
              Some (JObj [(''ok'', JBool True), (''receivedAt'', JStr now)]))"
  using assms by (simp add: profile_handler_POST)

theorem profile_handler_post_status_witness:
  "res_status (profile_handler ''2026-11-03T10:00:00.000Z''
      \<lparr>req_method = ''POST'', req_authorization = None,
       req_body = JStr ''not an object''\<rparr>) = 400
   \<and> res_body (profile_handler ''2026-11-03T10:00:00.000Z''
      \<lparr>req_method = ''POST'', req_authorization = None, req_body = JObj []\<rparr>) =
       Some (JObj [(''ok'', JBool True), (''receivedAt'', JStr ''2026-11-03T10:00:00.000Z'')])"
  using profile_handler_post_status
      [of "\<lparr>req_method = ''POST'', req_authorization = None,
            req_body = JStr ''not an object''\<rparr>" "''2026-11-03T10:00:00.000Z''"]
    profile_handler_post_status
      [of "\<lparr>req_method = ''POST'', req_authorization = None, req_body = JObj []\<rparr>"
          "''2026-11-03T10:00:00.000Z''"]
  by simp

text \<open>
  Claim C10: a POST whose body is falsy (absent, null, the empty string, 0 or false)
  has the empty object substituted for the body and is answered with status 200 and
  \<open>ok: true\<close>; status 400 is only ever the answer to a truthy body whose type is not
  \<open>object\<close>.
\<close>

theorem profile_handler_falsy_body:
  assumes "req_method req = ''POST''"
  shows "(req_body req \<in> {JUndefined, JNull, JStr [], JNum 0, JBool False} \<longrightarrow>
            js_or (req_body req) (JObj []) = JObj [] \<and>
            res_status (profile_handler now req) = 200 \<and>
            res_body (profile_handler now req) =
              Some (JObj [(''ok'', JBool True), (''receivedAt'', JStr now)]))
       \<and> (res_status (profile_handler now req) = 400 \<longrightarrow>
            truthy (req_body req) \<and> js_typeof (req_body req) \<noteq> ''object'')"
  using assms by (auto simp add: profile_handler_POST js_or_def split: if_splits)

theorem profile_handler_falsy_body_witness:
  "res_status (profile_handler ''2026-11-03T10:00:00.000Z''
      \<lparr>req_method = ''POST'', req_authorization = None, req_body = JStr []\<rparr>) = 200
   \<and> truthy (JNum 7) \<and> js_typeof (JNum 7) \<noteq> ''object''
   \<and> res_status (profile_handler ''2026-11-03T10:00:00.000Z''
      \<lparr>req_method = ''POST'', req_authorization = None, req_body = JNum 7\<rparr>) = 400"
proof -
  have a: "res_status (profile_handler ''2026-11-03T10:00:00.000Z''
      \<lparr>req_method = ''POST'', req_authorization = None, req_body = JNum 7\<rparr>) = 400"
    by (simp add: profile_handler_POST)
  show ?thesis
    using a profile_handler_falsy_body
      [of "\<lparr>req_method = ''POST'', req_authorization = None, req_body = JStr []\<rparr>"
          "''2026-11-03T10:00:00.000Z''"]
      profile_handler_falsy_body
      [of "\<lparr>req_method = ''POST'', req_authorization = None, req_body = JNum 7\<rparr>"
          "''2026-11-03T10:00:00.000Z''"]
    by simp
qed

section \<open>Properties of the tier derivation\<close>

lemma get_prop_metadata:
  "k \<noteq> ''length'' \<Longrightarrow> get_prop (js_or m (JObj [])) k = Inr (get_own m k)"
  by (cases m) (simp_all add: get_prop_def js_or_def index_of_key_def)

lemma getUserTier_total:
  "getUserTier u = Inr
     (if truthy (get_own (privateMetadata u) ''tier'') then get_own (privateMetadata u) ''tier''
      else if truthy (get_own (publicMetadata u) ''tier'') then get_own (publicMetadata u) ''tier''
      else if endsWith (case primaryEmailAddress u of Some a \<Rightarrow> a | None \<Rightarrow> [])
                 ''@atticusconseil.com''
            \<or> endsWith (case primaryEmailAddress u of Some a \<Rightarrow> a | None \<Rightarrow> [])
                 ''@atticus.com''
            \<or> truthy (get_own (publicMetadata u) ''betaAccess'')
           then JStr ''beta''
      else JStr ''free'')"
proof -
  have e: "(case primaryEmailAddress u of Some a \<Rightarrow> if a \<noteq> [] then a else [] | None \<Rightarrow> [])
         = (case primaryEmailAddress u of Some a \<Rightarrow> a | None \<Rightarrow> [])"
    by (simp split: option.split)
  show ?thesis
    unfolding getUserTier_def Let_def e
    by (simp add: get_prop_metadata bind_err_def)
qed

text \<open>
  Claim C2, as the specification states it, fails: a tier field that is present in the
  private metadata with a falsy value (here the empty string) is passed over, and the
  public-metadata tier is the result.
\<close>

theorem getUserTier_present_falsy_counterexample:
  "map_of [(''tier'', JStr [])] ''tier'' = Some (JStr [])
   \<and> getUserTier \<lparr>user_id = ''user_1'', firstName = Some ''Ada'',
        primaryEmailAddress = Some ''ada@example.org'',
        publicMetadata = JObj [(''tier'', JStr ''premium'')],
        privateMetadata = JObj [(''tier'', JStr [])]\<rparr> = Inr (JStr ''premium'')
   \<and> getUserTier \<lparr>user_id = ''user_1'', firstName = Some ''Ada'',
        primaryEmailAddress = Some ''ada@example.org'',
        publicMetadata = JObj [(''tier'', JStr ''premium'')],
        privateMetadata = JObj [(''tier'', JStr [])]\<rparr> \<noteq> Inr (JStr [])"
  by (simp add: getUserTier_total)

text \<open>
  Claim C2, amended: for every user record the derivation returns, without raising,
  the private-metadata tier field if it is truthy (present and not null, false, 0 or
  the empty string), else the public-metadata tier field if it is truthy, else
  \<open>beta\<close> if the primary e-mail address ends with \<open>@atticusconseil.com\<close> or
  \<open>@atticus.com\<close> or the public-metadata \<open>betaAccess\<close> field is truthy, else
  \<open>free\<close>.
\<close>

theorem getUserTier_priority:
  "(truthy (get_own (privateMetadata u) ''tier'') \<longrightarrow>
      getUserTier u = Inr (get_own (privateMetadata u) ''tier''))
   \<and> (\<not> truthy (get_own (privateMetadata u) ''tier'') \<and>
       truthy (get_own (publicMetadata u) ''tier'') \<longrightarrow>
      getUserTier u = Inr (get_own (publicMetadata u) ''tier''))
   \<and> (\<not> truthy (get_own (privateMetadata u) ''tier'') \<and>
       \<not> truthy (get_own (publicMetadata u) ''tier'') \<longrightarrow>
      getUserTier u = Inr
        (if endsWith (case primaryEmailAddress u of Some a \<Rightarrow> a | None \<Rightarrow> [])
              ''@atticusconseil.com''
          \<or> endsWith (case primaryEmailAddress u of Some a \<Rightarrow> a | None \<Rightarrow> [])
              ''@atticus.com''
          \<or> truthy (get_own (publicMetadata u) ''betaAccess'')
         then JStr ''beta'' else JStr ''free''))"
  by (simp add: getUserTier_total)

theorem getUserTier_priority_witness:
  "getUserTier \<lparr>user_id = ''user_1'', firstName = Some ''Ada'',
        primaryEmailAddress = Some ''ada@example.org'',
        publicMetadata = JObj [(''tier'', JStr ''beta'')],
        privateMetadata = JObj [(''tier'', JStr ''premium'')]\<rparr> = Inr (JStr ''premium'')
   \<and> getUserTier \<lparr>user_id = ''user_2'', firstName = None,
        primaryEmailAddress = Some ''bob@example.org'',
        publicMetadata = JObj [(''tier'', JStr ''beta'')],
        privateMetadata = JNull\<rparr> = Inr (JStr ''beta'')
   \<and> getUserTier \<lparr>user_id = ''user_3'', firstName = None,
        primaryEmailAddress = Some ''eve@atticus.com'',
        publicMetadata = JObj [], privateMetadata = JObj []\<rparr> = Inr (JStr ''beta'')
   \<and> getUserTier \<lparr>user_id = ''user_4'', firstName = None,
        primaryEmailAddress = None,
        publicMetadata = JUndefined, privateMetadata = JUndefined\<rparr> = Inr (JStr ''free'')"
  using getUserTier_priority [of "\<lparr>user_id = ''user_1'', firstName = Some ''Ada'',
        primaryEmailAddress = Some ''ada@example.org'',
        publicMetadata = JObj [(''tier'', JStr ''beta'')],
        privateMetadata = JObj [(''tier'', JStr ''premium'')]\<rparr>"]
    getUserTier_priority [of "\<lparr>user_id = ''user_2'', firstName = None,
        primaryEmailAddress = Some ''bob@example.org'',
        publicMetadata = JObj [(''tier'', JStr ''beta'')],
        privateMetadata = JNull\<rparr>"]
    getUserTier_priority [of "\<lparr>user_id = ''user_3'', firstName = None,
        primaryEmailAddress = Some ''eve@atticus.com'',
        publicMetadata = JObj [], privateMetadata = JObj []\<rparr>"]
    getUserTier_priority [of "\<lparr>user_id = ''user_4'', firstName = None,
        primaryEmailAddress = None,
        publicMetadata = JUndefined, privateMetadata = JUndefined\<rparr>"]
  by (simp add: endsWith_def)

section \<open>Properties of the usage limiter\<close>

lemma checkUsageLimit_free:
  "checkUsageLimit userId (JStr ''free'') =
     \<lparr>allowed = True, reason = JUndefined,
      usage = JObj [(''used'', JNum 0), (''limit'', JNum 12)]\<rparr>"
  by (simp add: checkUsageLimit_def literal_lookup_def TIER_CONFIG_def)

lemma checkUsageLimit_beta:
  "checkUsageLimit userId (JStr ''beta'') =
     \<lparr>allowed = True, reason = JUndefined,
      usage = JObj [(''used'', JNum 0), (''limit'', JNum 25)]\<rparr>"
  by (simp add: checkUsageLimit_def literal_lookup_def TIER_CONFIG_def)

lemma checkUsageLimit_premium:
  "checkUsageLimit userId (JStr ''premium'') =
     \<lparr>allowed = True, reason = JUndefined,
      usage = JObj [(''used'', JNum 0), (''limit'', JNum 25)]\<rparr>"
  by (simp add: checkUsageLimit_def literal_lookup_def TIER_CONFIG_def)

lemma checkUsageLimit_unknown:
  "t \<notin> {''free'', ''beta'', ''premium''} \<Longrightarrow> t \<notin> set object_prototype_keys \<Longrightarrow>
   checkUsageLimit userId (JStr t) =
     \<lparr>allowed = False, reason = JStr ''Invalid user tier'', usage = JUndefined\<rparr>"
  by (simp add: checkUsageLimit_def literal_lookup_def TIER_CONFIG_def)

lemma checkUsageLimit_allowed_iff:
  "allowed (checkUsageLimit userId (JStr t)) \<longleftrightarrow>
     t \<in> {''free'', ''beta'', ''premium''} \<or> t \<in> set object_prototype_keys"
  by (simp add: checkUsageLimit_def literal_lookup_def TIER_CONFIG_def Let_def)

lemma checkUsageLimit_array_tier:
  "checkUsageLimit userId (JArr [JStr ''free'']) = checkUsageLimit userId (JStr ''free'')"
  by (simp add: checkUsageLimit_def)

lemma checkUsageLimit_constructor:
  "checkUsageLimit userId (JStr ''constructor'') =
     \<lparr>allowed = True, reason = JUndefined,
      usage = JObj [(''used'', JNum 0), (''limit'', JUndefined)]\<rparr>"
  by (simp add: checkUsageLimit_def literal_lookup_def TIER_CONFIG_def
      object_prototype_keys_def)

text \<open>
  Claim C3 (the limiter rejects every tier string that is not in the tier table) does
  not hold of the code at the tier string \<open>constructor\<close>: the string is not a key of
  the tier table, yet the read of the table finds the inherited property, the
  comparison of 0 with its missing \<open>dailyLimit\<close> is false, and the check allows the
  request with an undefined limit.
\<close>

theorem checkUsageLimit_inherited_key:
  "map_of TIER_CONFIG ''constructor'' = None
   \<and> checkUsageLimit userId (JStr ''constructor'') =
       \<lparr>allowed = True, reason = JUndefined,
        usage = JObj [(''used'', JNum 0), (''limit'', JUndefined)]\<rparr>"
  by (simp add: checkUsageLimit_constructor) (simp add: TIER_CONFIG_def)

section \<open>Properties of the system prompt composition\<close>

lemma safeJSONString_length_general:
  "3 \<le> maxLen \<Longrightarrow> int (length (safeJSONString_with stringify obj maxLen)) \<le> maxLen"
  unfolding safeJSONString_with_def safeJSONString_try_def Let_def bind_err_def slice0_def
  by (auto split: option.splits sum.splits)

subsection \<open>The decimal index keys of arrays and strings\<close>

lemma show_nat_nonempty: "show_nat n \<noteq> []"
  by (induction n rule: show_nat.induct) (subst show_nat.simps, simp del: show_nat.simps)

lemma digit_inj: "a < 10 \<Longrightarrow> b < 10 \<Longrightarrow> ''0123456789'' ! a = ''0123456789'' ! b \<Longrightarrow> a = b"
proof -
  have "distinct ''0123456789''" by simp
  moreover have "length ''0123456789'' = 10" by simp
  ultimately show "a < 10 \<Longrightarrow> b < 10 \<Longrightarrow> ''0123456789'' ! a = ''0123456789'' ! b \<Longrightarrow> a = b"
    using nth_eq_iff_index_eq [of "''0123456789''" a b] by simp
qed

lemma show_nat_last: "last (show_nat n) = ''0123456789'' ! (n mod 10)"
  by (subst show_nat.simps) (simp del: show_nat.simps)

lemma show_nat_butlast:
  "butlast (show_nat n) = (if n < 10 then [] else show_nat (n div 10))"
  by (subst show_nat.simps) (simp del: show_nat.simps)

lemma show_nat_inj: "show_nat a = show_nat b \<Longrightarrow> a = b"
proof (induction a arbitrary: b rule: show_nat.induct)
  case (1 a)
  have m: "a mod 10 = b mod 10"
    using 1(2) show_nat_last [of a] show_nat_last [of b] digit_inj [of "a mod 10" "b mod 10"]
    by (simp del: show_nat.simps)
  have bl: "butlast (show_nat a) = butlast (show_nat b)"
    using 1(2) by (simp del: show_nat.simps)
  show ?case
  proof (cases "a < 10")
    case True
    then have "b < 10"
      using bl show_nat_butlast [of a] show_nat_butlast [of b] show_nat_nonempty [of "b div 10"]
      by (auto simp del: show_nat.simps split: if_splits)
    with True m show ?thesis by (simp del: show_nat.simps)
  next
    case False
    then have nb: "\<not> b < 10"
      using bl show_nat_butlast [of a] show_nat_butlast [of b] show_nat_nonempty [of "a div 10"]
      by (auto simp del: show_nat.simps split: if_splits)
    then have "show_nat (a div 10) = show_nat (b div 10)"
      using bl False show_nat_butlast [of a] show_nat_butlast [of b]
      by (simp del: show_nat.simps)
    then have "a div 10 = b div 10"
      using 1(1) [OF False] by (simp del: show_nat.simps)
    with m show ?thesis
      by (metis div_mult_mod_eq)
  qed
qed

lemma show_nat_digits: "set (show_nat n) \<subseteq> set ''0123456789''"
proof (induction n rule: show_nat.induct)
  case (1 n)
  have d: "''0123456789'' ! k \<in> set ''0123456789''" if "k < 10" for k
    using that nth_mem [of k "''0123456789''"] by simp
  show ?case
  proof (cases "n < 10")
    case True
    then show ?thesis
      using d [of n] by (subst show_nat.simps) (simp del: show_nat.simps)
  next
    case False
    then show ?thesis
      using 1 [OF False] d [of "n mod 10"]
      by (subst show_nat.simps) (simp del: show_nat.simps)
  qed
qed

lemma show_nat_not_length: "show_nat n \<noteq> ''length''"
  using show_nat_digits [of n] by (auto simp del: show_nat.simps)

lemma index_of_key_show_nat: "i < n \<Longrightarrow> index_of_key n (show_nat i) = Some i"
  unfolding index_of_key_def find_Some_iff
  by (rule exI [of _ i]) (auto simp del: show_nat.simps dest: show_nat_inj)

lemma distinct_index_keys: "distinct (map show_nat [0..<n])"
  by (simp add: distinct_map inj_on_def del: show_nat.simps)
    (auto simp del: show_nat.simps dest: show_nat_inj)

subsection \<open>Keys and values of the own properties\<close>

lemma object_keys_spread:
  "obj \<noteq> JUndefined \<Longrightarrow> obj \<noteq> JNull \<Longrightarrow> object_keys obj = Inr (map fst (spread_props obj))"
  by (cases obj) (simp_all del: show_nat.simps)

lemma distinct_spread_props:
  "(\<And>kvs. obj = JObj kvs \<Longrightarrow> distinct (map fst kvs)) \<Longrightarrow>
   distinct (map fst (spread_props obj))"
  by (cases obj) (simp_all add: distinct_index_keys del: show_nat.simps)

lemma get_own_spread:
  assumes "(k, v) \<in> set (spread_props obj)" and "distinct (map fst (spread_props obj))"
  shows "get_own obj k = v"
proof (cases obj)
  case (JObj kvs)
  then show ?thesis using assms by simp
next
  case (JArr xs)
  then obtain i where i: "i < length xs" "k = show_nat i" "v = xs ! i"
    using assms(1) by (auto simp add: in_set_zip simp del: show_nat.simps)
  then show ?thesis
    using JArr by (simp add: show_nat_not_length index_of_key_show_nat del: show_nat.simps)
next
  case (JStr s)
  then obtain i where i: "i < length s" "k = show_nat i" "v = JStr [s ! i]"
    using assms(1) by (auto simp add: in_set_zip simp del: show_nat.simps)
  then show ?thesis
    using JStr by (simp add: show_nat_not_length index_of_key_show_nat del: show_nat.simps)
qed (use assms in simp_all)

lemma alist_update_fresh: "k \<notin> fst ` set al \<Longrightarrow> AList.update k v al = al @ [(k, v)]"
  by (induction al) auto

text \<open>
  The \<open>reduce\<close> of line 219 over keys of the object copies their properties in
  order, but for the key \<open>__proto__\<close>.
\<close>

lemma reduce_keys_aux:
  assumes "obj \<noteq> JUndefined" and "obj \<noteq> JNull"
  shows "\<forall>(k, v) \<in> set rest. get_own obj k = v \<Longrightarrow>
     distinct (map fst acc @ map fst rest) \<Longrightarrow>
     foldl (\<lambda>a k. bind_err a (\<lambda>acc.
                 bind_err (get_prop obj k) (\<lambda>v. Inr (assign_prop acc k v))))
        (Inr (JObj acc)) (map fst rest)
     = Inr (JObj (acc @ filter (\<lambda>kv. fst kv \<noteq> ''__proto__'') rest))"
proof (induction rest arbitrary: acc)
  case Nil
  then show ?case by simp
next
  case (Cons kv rest)
  obtain k v where kv: "kv = (k, v)" by (cases kv)
  have look: "get_prop obj k = Inr v"
    using Cons.prems(1) assms kv by (simp add: get_prop_def)
  have fresh: "k \<notin> fst ` set acc"
    using Cons.prems(2) kv by auto
  have rest: "\<forall>(k, v) \<in> set rest. get_own obj k = v"
    using Cons.prems(1) by simp
  show ?case
  proof (cases "k = ''__proto__''")
    case True
    have "distinct (map fst acc @ map fst rest)" using Cons.prems(2) by simp
    with Cons.IH [of acc] rest show ?thesis
      using True kv look by (simp add: bind_err_def)
  next
    case False
    have "distinct (map fst (acc @ [(k, v)]) @ map fst rest)"
      using Cons.prems(2) kv by auto
    with Cons.IH [of "acc @ [(k, v)]"] rest show ?thesis
      using False kv look fresh by (simp add: bind_err_def alist_update_fresh)
  qed
qed

lemma reduce_first_keys:
  assumes "obj \<noteq> JUndefined" and "obj \<noteq> JNull"
    and "distinct (map fst (spread_props obj))"
  shows "foldl (\<lambda>a k. bind_err a (\<lambda>acc.
                 bind_err (get_prop obj k) (\<lambda>v. Inr (assign_prop acc k v))))
        (Inr (JObj [])) (take n (map fst (spread_props obj)))
     = Inr (JObj (filter (\<lambda>kv. fst kv \<noteq> ''__proto__'') (take n (spread_props obj))))"
proof -
  have d: "distinct (map fst (take n (spread_props obj)))"
    using assms(3) by (simp add: take_map [symmetric] distinct_take)
  have g: "\<forall>(k, v) \<in> set (take n (spread_props obj)). get_own obj k = v"
    using get_own_spread [OF _ assms(3)] by (auto dest: in_set_takeD)
  show ?thesis
    using reduce_keys_aux [OF assms(1,2) g, of "[]"] d by (simp add: take_map)
qed

lemma safeJSONString_over_cap:
  assumes "stringify obj = Inr (Some s)" and "4000 < length s"
    and "obj \<noteq> JUndefined" and "obj \<noteq> JNull"
    and "distinct (map fst (spread_props obj))"
  shows "safeJSONString_with stringify obj 4000 =
     (case stringify (JObj (filter (\<lambda>kv. fst kv \<noteq> ''__proto__'')
                             (take 20 (spread_props obj)))) of
        Inl e \<Rightarrow> ''{}''
      | Inr None \<Rightarrow> ''{}''
      | Inr (Some out) \<Rightarrow> if 4000 < length out then take 3997 out @ ''...'' else out)"
  unfolding safeJSONString_with_def safeJSONString_try_def Let_def
  using assms(1,2) object_keys_spread [OF assms(3,4)] reduce_first_keys [OF assms(3,4,5), of 20]
  by (simp add: bind_err_def slice0_def split: sum.split option.split)

text \<open>
  Claim C5: for every input and whatever \<open>JSON.stringify\<close> does, \<open>safeJSONString\<close>
  with the cap 4000 returns a string of at most 4000 characters. A serialisation of at
  most 4000 characters is returned as it is. When the serialisation has more than 4000
  characters, the result is the serialisation of the object that holds the first 20
  own properties of the input (less a property \<open>__proto__\<close>, which the copy loses),
  cut to its first 3997 characters and followed by \<open>...\<close> if it has more than 4000
  itself. When the serialiser raises, or any other step of the \<open>try\<close> block does,
  the result is the literal \<open>{}\<close>. On JSON data \<open>safeJSONString\<close> is this
  function with the serialiser of JSON data.
\<close>

theorem safeJSONString_capped:
  "length (safeJSONString_with stringify obj 4000) \<le> 4000
   \<and> (\<forall>s. stringify obj = Inr (Some s) \<and> length s \<le> 4000 \<longrightarrow>
         safeJSONString_with stringify obj 4000 = s)
   \<and> (\<forall>s. stringify obj = Inr (Some s) \<and> 4000 < length s
           \<and> obj \<noteq> JUndefined \<and> obj \<noteq> JNull
           \<and> distinct (map fst (spread_props obj)) \<longrightarrow>
         safeJSONString_with stringify obj 4000 =
           (case stringify (JObj (filter (\<lambda>kv. fst kv \<noteq> ''__proto__'')
                                   (take 20 (spread_props obj)))) of
              Inl e \<Rightarrow> ''{}''
            | Inr None \<Rightarrow> ''{}''
            | Inr (Some out) \<Rightarrow>
                if 4000 < length out then take 3997 out @ ''...'' else out))
   \<and> (\<forall>e. stringify obj = Inl e \<longrightarrow> safeJSONString_with stringify obj 4000 = ''{}'')
   \<and> (\<forall>e. safeJSONString_try stringify obj 4000 = Inl e \<longrightarrow>
         safeJSONString_with stringify obj 4000 = ''{}'')
   \<and> safeJSONString obj 4000 = safeJSONString_with (\<lambda>v. Inr (JSON_stringify v)) obj 4000"
proof (intro conjI allI impI)
  show "length (safeJSONString_with stringify obj 4000) \<le> 4000"
    using safeJSONString_length_general [of 4000 stringify obj] by simp
next
  fix s assume "stringify obj = Inr (Some s) \<and> length s \<le> 4000"
  then show "safeJSONString_with stringify obj 4000 = s"
    by (simp add: safeJSONString_with_def safeJSONString_try_def bind_err_def)
next
  fix s assume "stringify obj = Inr (Some s) \<and> 4000 < length s
           \<and> obj \<noteq> JUndefined \<and> obj \<noteq> JNull
           \<and> distinct (map fst (spread_props obj))"
  then show "safeJSONString_with stringify obj 4000 =
           (case stringify (JObj (filter (\<lambda>kv. fst kv \<noteq> ''__proto__'')
                                   (take 20 (spread_props obj)))) of
              Inl e \<Rightarrow> ''{}''
            | Inr None \<Rightarrow> ''{}''
            | Inr (Some out) \<Rightarrow>
                if 4000 < length out then take 3997 out @ ''...'' else out)"
    using safeJSONString_over_cap [of stringify obj s] by blast
next
  fix e assume "stringify obj = Inl e"
  then show "safeJSONString_with stringify obj 4000 = ''{}''"
    by (simp add: safeJSONString_with_def safeJSONString_try_def bind_err_def)
next
  fix e assume "safeJSONString_try stringify obj 4000 = Inl e"
  then show "safeJSONString_with stringify obj 4000 = ''{}''"
    by (simp add: safeJSONString_with_def)
next
  show "safeJSONString obj 4000 = safeJSONString_with (\<lambda>v. Inr (JSON_stringify v)) obj 4000"
    by (simp add: safeJSONString_def)
qed

lemma concat_replicate_single: "concat (replicate n [c]) = replicate n c"
  by (induction n) auto

lemma json_quote_replicate_x:
  "json_quote (replicate n CHR ''x'') = CHR 0x22 # replicate n CHR ''x'' @ [CHR 0x22]"
  by (simp add: json_quote_def json_escape_def concat_replicate_single)

lemma stringify_note:
  "JSON_stringify (JObj [(''note'', JStr (replicate n CHR ''x''))]) =
     Some (''{\"note\":\"'' @ replicate n CHR ''x'' @ ''\"}'')"
  by (simp add: json_quote_replicate_x) (simp add: json_quote_def json_escape_def)

lemma example_profile_props:
  "length (spread_props example_profile) = 21"
  "distinct (map fst (spread_props example_profile))"
  by (simp_all add: example_profile_def)

lemma example_profile_length:
  "\<exists>s. JSON_stringify example_profile = Some s \<and> length s = 4171"
  by (simp add: example_profile_def json_quote_replicate_x)
     (simp add: json_quote_def json_escape_def)

lemma example_profile_first_keys_length:
  "\<exists>out. JSON_stringify (JObj (take 20 (spread_props example_profile))) = Some out
       \<and> length out = 3972"
  by (simp add: example_profile_def json_quote_replicate_x)
     (simp add: json_quote_def json_escape_def)

lemma example_profile_no_proto:
  "filter (\<lambda>kv. fst kv \<noteq> ''__proto__'') (take 20 (spread_props example_profile))
     = take 20 (spread_props example_profile)"
  by (simp add: example_profile_def)


lemma safeJSONString_note:
  "safeJSONString (JObj [(''note'', JStr (replicate 4000 CHR ''x''))]) 4000
   = ''{\"note\":\"'' @ replicate 3988 CHR ''x'' @ ''...''"
  unfolding safeJSONString_def safeJSONString_with_def safeJSONString_try_def Let_def
  by (simp add: bind_err_def get_prop_def slice0_def stringify_note del: JSON_stringify.simps)

theorem safeJSONString_capped_witness:
  "length (spread_props example_profile) = 21
   \<and> distinct (map fst (spread_props example_profile))
   \<and> (\<exists>s. JSON_stringify example_profile = Some s \<and> length s = 4171)
   \<and> JSON_stringify (JObj (take 20 (spread_props example_profile)))
       = Some (safeJSONString example_profile 4000)
   \<and> length (safeJSONString example_profile 4000) = 3972
   \<and> safeJSONString (JObj [(''note'', JStr (replicate 4000 CHR ''x''))]) 4000
       = ''{\"note\":\"'' @ replicate 3988 CHR ''x'' @ ''...''
   \<and> safeJSONString (JObj [(''goal'', JStr ''retirement'')]) 4000
       = ''{\"goal\":\"retirement\"}''
   \<and> safeJSONString_with (\<lambda>v. Inl TypeError) example_profile 4000 = ''{}''
   \<and> safeJSONString JUndefined 4000 = ''{}''"
proof -
  let ?ser = "\<lambda>v. Inr (JSON_stringify v) :: js_error + string option"
  obtain s where s: "JSON_stringify example_profile = Some s" "length s = 4171"
    using example_profile_length by blast
  obtain out where out:
    "JSON_stringify (JObj (take 20 (spread_props example_profile))) = Some out"
    "length out = 3972"
    using example_profile_first_keys_length by blast
  have nn: "example_profile \<noteq> JUndefined" "example_profile \<noteq> JNull"
    by (simp_all add: example_profile_def)
  have hyp: "?ser example_profile = Inr (Some s) \<and> 4000 < length s
           \<and> example_profile \<noteq> JUndefined \<and> example_profile \<noteq> JNull
           \<and> distinct (map fst (spread_props example_profile))"
    using s nn example_profile_props(2) by simp
  have over: "safeJSONString example_profile 4000 = out"
    using safeJSONString_capped [of ?ser example_profile] hyp out
    by (simp add: example_profile_no_proto del: JSON_stringify.simps)
  have small: "safeJSONString (JObj [(''goal'', JStr ''retirement'')]) 4000
       = ''{\"goal\":\"retirement\"}''"
  proof -
    have "?ser (JObj [(''goal'', JStr ''retirement'')]) = Inr (Some ''{\"goal\":\"retirement\"}'')
          \<and> length ''{\"goal\":\"retirement\"}'' \<le> 4000"
      by (simp add: json_quote_def json_escape_def)
    then show ?thesis
      using safeJSONString_capped [of ?ser "JObj [(''goal'', JStr ''retirement'')]"]
      by (simp del: JSON_stringify.simps)
  qed
  have raise: "safeJSONString_with (\<lambda>v. Inl TypeError) example_profile 4000 = ''{}''"
    using safeJSONString_capped [of "\<lambda>v. Inl TypeError" example_profile] by blast
  have undef: "safeJSONString JUndefined 4000 = ''{}''"
  proof -
    have "safeJSONString_try ?ser JUndefined 4000 = Inl TypeError"
      by (simp add: safeJSONString_try_def bind_err_def)
    then show ?thesis
      using safeJSONString_capped [of ?ser JUndefined] by (simp del: JSON_stringify.simps)
  qed
  show ?thesis
    using example_profile_props s out over small raise undef safeJSONString_note
    by (simp del: JSON_stringify.simps)
qed

lemma profile_block_delimited:
  "take 23 profile_block_head = [CHR 0x0A] @ ''---'' @ [CHR 0x0A] @ ''PROFIL UTILISATEUR''
   \<and> endsWith profile_block_tail ''---''"
  by (simp add: profile_block_head_def profile_block_tail_def endsWith_def)

text \<open>
  Claim C6: for every base system string and profile, \<open>appendProfileToSystem\<close> returns
  the base string unchanged when the profile is absent (falsy) or not of type
  \<open>object\<close>; when the profile is an object (truthy and of type \<open>object\<close>) the
  result is the base string, a newline, and a block that opens with the delimiter and
  the marker \<open>PROFIL UTILISATEUR\<close>, holds the \<open>safeJSONString\<close> serialisation of
  the profile, and closes with the delimiter.
\<close>

theorem appendProfileToSystem_block:
  "(\<not> truthy profile \<or> js_typeof profile \<noteq> ''object'' \<longrightarrow>
      appendProfileToSystem (JStr base) profile = Inr (JStr base))
   \<and> (truthy profile \<and> js_typeof profile = ''object'' \<longrightarrow>
      appendProfileToSystem (JStr base) profile =
        Inr (JStr (base @ [CHR 0x0A] @ profile_block_head
                     @ safeJSONString profile 4000 @ profile_block_tail)))
   \<and> take 23 profile_block_head = [CHR 0x0A] @ ''---'' @ [CHR 0x0A] @ ''PROFIL UTILISATEUR''
   \<and> endsWith profile_block_tail ''---''"
  using profile_block_delimited
  by (simp add: appendProfileToSystem_def bind_err_def Let_def)

theorem appendProfileToSystem_block_witness:
  "appendProfileToSystem (JStr ''Base persona'') JUndefined = Inr (JStr ''Base persona'')
   \<and> appendProfileToSystem (JStr ''Base persona'') (JStr ''retirement'')
       = Inr (JStr ''Base persona'')
   \<and> safeJSONString (JObj [(''goal'', JStr ''retirement'')]) 4000
       = ''{\"goal\":\"retirement\"}''
   \<and> appendProfileToSystem (JStr ''Base persona'') (JObj [(''goal'', JStr ''retirement'')])
       = Inr (JStr (''Base persona'' @ [CHR 0x0A] @ profile_block_head
                     @ ''{\"goal\":\"retirement\"}'' @ profile_block_tail))"
proof -
  have j: "safeJSONString (JObj [(''goal'', JStr ''retirement'')]) 4000
       = ''{\"goal\":\"retirement\"}''"
    by (simp add: safeJSONString_def safeJSONString_with_def safeJSONString_try_def
        bind_err_def json_quote_def json_escape_def)
  show ?thesis
    using j appendProfileToSystem_block [of JUndefined "''Base persona''"]
      appendProfileToSystem_block [of "JStr ''retirement''" "''Base persona''"]
      appendProfileToSystem_block [of "JObj [(''goal'', JStr ''retirement'')]" "''Base persona''"]
    by simp
qed

section \<open>Properties of the authentication resolver\<close>

lemma try_fallback_direct:
  "str_includes token CHR '':'' \<or> length token \<le> 20 \<Longrightarrow>
   try_fallback clerk decode token =
     (case getUser clerk token of Inr u \<Rightarrow> u | Inl err \<Rightarrow> None)"
  by (auto simp add: try_fallback_def)

lemma try_base64_mismatch:
  assumes "str_includes (decode token) CHR '':''"
    and "split_on CHR '':'' (decode token) = email # userId # rest"
    and "email \<noteq> []" "userId \<noteq> []"
    and "getUser clerk userId = Inr (Some u)"
    and "primaryEmailAddress u \<noteq> Some email"
  shows "try_base64 clerk decode token = (Some u, Some (Error ''Email mismatch''))"
  using assms by (simp add: try_base64_def)

lemma mismatch_then_failed_lookup:
  assumes "\<not> str_includes token CHR '':''" "20 < length token"
    and "try_base64 clerk decode token = (Some u, Some (Error ''Email mismatch''))"
    and "getUser clerk token = Inl err"
  shows "try_fallback clerk decode token = Some u"
  using assms by (simp add: try_fallback_def)

lemma authenticateUser_mismatch:
  assumes "req_authorization req = Some (''Bearer '' @ token)"
    and "try_session (clerkClient e) token = Inl e1"
    and "try_jwt (clerkClient e) token = Inl e2"
    and "\<not> str_includes token CHR '':''" and "20 < length token"
    and "try_base64 (clerkClient e) (base64_utf8 e) token
           = (Some u, Some (Error ''Email mismatch''))"
    and "getUserTier u = Inr tier" and "to_string tier = Inr s"
  shows "authenticateUser e req =
     (case getUser (clerkClient e) token of
        Inl e3 \<Rightarrow> AuthSuccess u tier (user_id u)
      | Inr None \<Rightarrow> AuthFailure ''Invalid authentication token'' 401
      | Inr (Some u') \<Rightarrow>
          (case bind_err (getUserTier u') (\<lambda>userTier.
                  bind_err (to_string userTier) (\<lambda>logged. Inr userTier)) of
             Inl error \<Rightarrow> AuthFailure ''Authentication failed'' 401
           | Inr userTier \<Rightarrow> AuthSuccess u' userTier (user_id u')))"
  using assms
  by (simp add: authenticateUser_def try_fallback_def startsWith_def bind_err_def
      split: sum.split option.split)

text \<open>
  Claim C4 (a mismatch between the fetched user's primary e-mail address and the
  address in the token aborts the base64 strategy) does not hold of the code for the
  token \<open>bWFsbG9yeUBleGFtcGxlLm9yZzp1c2VyXzE=\<close>, the base64 form of
  \<open>mallory@example.org:user_1\<close>: the session lookup and the token verification raise,
  the user \<open>user_1\<close> is fetched and stored, the comparison with the user's address
  \<open>alice@example.org\<close> raises \<open>Email mismatch\<close>, the direct lookup of the raw token
  raises too, and the stored user is authenticated.
\<close>

theorem email_mismatch_still_authenticates:
  "try_session (example_clerk (example_user (JObj []))) ''bWFsbG9yeUBleGFtcGxlLm9yZzp1c2VyXzE=''
     = Inl (Error ''Not Found'')
   \<and> try_jwt (example_clerk (example_user (JObj []))) ''bWFsbG9yeUBleGFtcGxlLm9yZzp1c2VyXzE=''
     = Inl (Error ''Invalid token'')
   \<and> try_base64 (example_clerk (example_user (JObj [])))
        (base64_utf8 (example_env (example_user (JObj []))
           \<lparr>resp_status = 200, resp_text = Inr [], resp_json = Some (JObj [])\<rparr>))
        ''bWFsbG9yeUBleGFtcGxlLm9yZzp1c2VyXzE=''
     = (Some (example_user (JObj [])), Some (Error ''Email mismatch''))
   \<and> getUser (example_clerk (example_user (JObj []))) ''bWFsbG9yeUBleGFtcGxlLm9yZzp1c2VyXzE=''
     = Inl (Error ''Not Found'')
   \<and> primaryEmailAddress (example_user (JObj [])) = Some ''alice@example.org''
   \<and> authenticateUser
        (example_env (example_user (JObj []))
           \<lparr>resp_status = 200, resp_text = Inr [], resp_json = Some (JObj [])\<rparr>)
        (example_request ''bWFsbG9yeUBleGFtcGxlLm9yZzp1c2VyXzE='' (JObj []))
     = AuthSuccess (example_user (JObj [])) (JStr ''free'') ''user_1''"
  by (simp add: authenticateUser_def try_session_def try_jwt_def try_fallback_def
      try_base64_def example_env_def example_clerk_def example_user_def example_request_def
      bind_err_def startsWith_def str_includes_def getUserTier_total endsWith_def)

section \<open>Properties of the chat proxy endpoint\<close>

lemma claude_handler_POST:
  "req_method req = ''POST'' \<Longrightarrow>
   claude_handler e req =
     (case handler_try e req of
        Inl err \<Rightarrow> res_json 500 (JObj [(''error'', JStr ''Internal Server Error'')])
                    (applyCors fresh_response)
      | Inr (code, payload) \<Rightarrow> res_json code payload (applyCors fresh_response))"
  by (simp add: claude_handler_def Let_def)


lemma handler_unknown_tier:
  assumes "req_method req = ''POST''"
    and "authenticateUser e req = AuthSuccess u (JStr t) uid"
    and "t \<notin> {''free'', ''beta'', ''premium''}" and "t \<notin> set object_prototype_keys"
  shows "res_status (claude_handler e req) = 429
       \<and> res_body (claude_handler e req) =
           Some (JObj [(''error'', JStr ''Usage limit exceeded''),
                       (''reason'', JStr ''Invalid user tier''),
                       (''userTier'', JStr t),
                       (''resetTime'', JNum (next_midnight e))])"
  using assms
  by (simp add: claude_handler_POST handler_try_def checkUsageLimit_unknown)

text \<open>
  Claim C9 (a derived tier other than \<open>free\<close>, \<open>beta\<close> and \<open>premium\<close> is answered
  with status 429 and the reason \<open>Invalid user tier\<close>) does not hold of the code for
  a user whose private metadata give the tier \<open>constructor\<close>: the quota check allows
  the request, the provider is called, and the reply has status 200.
\<close>

theorem inherited_tier_key_not_rejected:
  "getUserTier (example_user (JObj [(''tier'', JStr ''constructor'')]))
     = Inr (JStr ''constructor'')
   \<and> res_status (claude_handler
        (example_env (example_user (JObj [(''tier'', JStr ''constructor'')]))
           \<lparr>resp_status = 200, resp_text = Inr ''{\"id\":\"msg_1\"}'',
            resp_json = Some (JObj [(''id'', JStr ''msg_1'')])\<rparr>)
        (example_request ''sess_1'' (JObj [(''messages'', JArr [])]))) = 200
   \<and> res_body (claude_handler
        (example_env (example_user (JObj [(''tier'', JStr ''constructor'')]))
           \<lparr>resp_status = 200, resp_text = Inr ''{\"id\":\"msg_1\"}'',
            resp_json = Some (JObj [(''id'', JStr ''msg_1'')])\<rparr>)
        (example_request ''sess_1'' (JObj [(''messages'', JArr [])])))
     = Some (JObj [(''id'', JStr ''msg_1''), (''usage'', JObj [(''used'', JNum 0)]),
                   (''userTier'', JStr ''constructor'')])"
proof -
  let ?u = "example_user (JObj [(''tier'', JStr ''constructor'')])"
  let ?resp = "\<lparr>resp_status = 200, resp_text = Inr ''{\"id\":\"msg_1\"}'',
            resp_json = Some (JObj [(''id'', JStr ''msg_1'')])\<rparr>"
  let ?e = "example_env ?u ?resp"
  let ?req = "example_request ''sess_1'' (JObj [(''messages'', JArr [])])"
  have t: "getUserTier ?u = Inr (JStr ''constructor'')"
    by (simp add: getUserTier_total example_user_def)
  have a: "authenticateUser ?e ?req = AuthSuccess ?u (JStr ''constructor'') ''user_1''"
    by (simp add: authenticateUser_def t try_session_def example_env_def example_clerk_def
        example_request_def bind_err_def startsWith_def)
      (simp add: example_user_def)
  have b: "\<exists>preq. build_provider_request ?e ?req ''user_1'' (JStr ''constructor'') = Inr preq"
    by (simp add: build_provider_request_def example_env_def example_request_def js_or_def
        with_default_def bind_err_def appendProfileToSystem_def Let_def)
  have r: "relay_provider_response ?resp ''user_1'' (JStr ''constructor'')
      = Inr (200, JObj [(''id'', JStr ''msg_1''),
                        (''usage'', JObj [(''used'', JNum 0), (''limit'', JUndefined)]),
                        (''userTier'', JStr ''constructor'')])"
    by (simp add: relay_provider_response_def resp_ok_def checkUsageLimit_constructor)
  have h: "handler_try ?e ?req
      = Inr (200, JObj [(''id'', JStr ''msg_1''),
                        (''usage'', JObj [(''used'', JNum 0), (''limit'', JUndefined)]),
                        (''userTier'', JStr ''constructor'')])"
    using b r by (auto simp add: handler_try_def a checkUsageLimit_constructor bind_err_def)
       (simp_all add: example_env_def)
  have p: "req_method ?req = ''POST''" by (simp add: example_request_def)
  show ?thesis
    using t by (simp add: claude_handler_POST [OF p] h)
qed


lemma authenticateUser_fetch [simp]:
  "authenticateUser (e\<lparr>fetch := f\<rparr>) req = authenticateUser e req"
  by (simp add: authenticateUser_def Let_def cong: option.case_cong sum.case_cong if_cong)

lemma build_provider_request_fetch [simp]:
  "build_provider_request (e\<lparr>fetch := f\<rparr>) req uid tier = build_provider_request e req uid tier"
  by (simp add: build_provider_request_def Let_def cong: option.case_cong sum.case_cong if_cong)

lemma handler_try_provider_error:
  assumes "authenticateUser e req = AuthSuccess u tier uid"
    and "allowed (checkUsageLimit uid tier)"
    and "CLAUDE_API_KEY e = Some key" and "key \<noteq> []"
    and "build_provider_request e req uid tier = Inr preq"
    and "fetch e preq = Inr resp"
    and "\<not> resp_ok resp"
    and "resp_text resp = Inr rtext"
  shows "handler_try e req =
     Inr (if 500 \<le> resp_status resp then 500 else resp_status resp,
          JObj [(''error'', if 500 \<le> resp_status resp then JStr ''Internal server error''
                          else JStr ''API request failed'')])"
  using assms by (simp add: handler_try_def bind_err_def relay_provider_response_def)

lemma handler_try_provider_unreadable:
  assumes "authenticateUser e req = AuthSuccess u tier uid"
    and "allowed (checkUsageLimit uid tier)"
    and "CLAUDE_API_KEY e = Some key" and "key \<noteq> []"
    and "build_provider_request e req uid tier = Inr preq"
    and "fetch e preq = Inr resp"
    and "\<not> resp_ok resp"
    and "resp_text resp = Inl err"
  shows "handler_try e req = Inl err"
  using assms by (simp add: handler_try_def bind_err_def relay_provider_response_def)

text \<open>
  Claim C7, as the specification states it, fails: a provider response with status
  404 whose text cannot be read (\<open>resp.text()\<close> raises inside the handler's \<open>try\<close>
  block) is answered with status 500 and the error \<open>Internal Server Error\<close> of the
  \<open>catch\<close> branch, not with status 404 and \<open>API request failed\<close>.
\<close>

theorem unreadable_provider_text_counterexample:
  "\<not> resp_ok \<lparr>resp_status = 404, resp_text = Inl (Error ''terminated''), resp_json = None\<rparr>
   \<and> res_status (claude_handler
        (example_env (example_user (JObj []))
           \<lparr>resp_status = 404, resp_text = Inl (Error ''terminated''), resp_json = None\<rparr>)
        (example_request ''sess_1'' (JObj [(''messages'', JArr [])]))) = 500
   \<and> res_body (claude_handler
        (example_env (example_user (JObj []))
           \<lparr>resp_status = 404, resp_text = Inl (Error ''terminated''), resp_json = None\<rparr>)
        (example_request ''sess_1'' (JObj [(''messages'', JArr [])])))
     = Some (JObj [(''error'', JStr ''Internal Server Error'')])
   \<and> res_body (claude_handler
        (example_env (example_user (JObj []))
           \<lparr>resp_status = 404, resp_text = Inl (Error ''terminated''), resp_json = None\<rparr>)
        (example_request ''sess_1'' (JObj [(''messages'', JArr [])])))
     \<noteq> Some (JObj [(''error'', JStr ''API request failed'')])"
proof -
  let ?u = "example_user (JObj [])"
  let ?resp = "\<lparr>resp_status = 404, resp_text = Inl (Error ''terminated''), resp_json = None\<rparr>"
  let ?e = "example_env ?u ?resp"
  let ?req = "example_request ''sess_1'' (JObj [(''messages'', JArr [])])"
  have t: "getUserTier ?u = Inr (JStr ''free'')"
    by (simp add: getUserTier_total example_user_def endsWith_def)
  have a: "authenticateUser ?e ?req = AuthSuccess ?u (JStr ''free'') ''user_1''"
    by (simp add: authenticateUser_def t try_session_def example_env_def example_clerk_def
        example_request_def bind_err_def startsWith_def)
      (simp add: example_user_def)
  have b: "\<exists>preq. build_provider_request ?e ?req ''user_1'' (JStr ''free'') = Inr preq"
    by (simp add: build_provider_request_def example_env_def example_request_def js_or_def
        with_default_def bind_err_def appendProfileToSystem_def Let_def)
  then obtain preq where
    preq: "build_provider_request ?e ?req ''user_1'' (JStr ''free'') = Inr preq" by blast
  have q: "allowed (checkUsageLimit ''user_1'' (JStr ''free''))"
    by (simp add: checkUsageLimit_free)
  have k: "CLAUDE_API_KEY ?e = Some ''sk-test''" "''sk-test'' \<noteq> []"
    by (simp_all add: example_env_def)
  have f: "fetch ?e preq = Inr ?resp" by (simp add: example_env_def)
  have n: "\<not> resp_ok ?resp" by (simp add: resp_ok_def)
  have x: "resp_text ?resp = Inl (Error ''terminated'')" by simp
  have h: "handler_try ?e ?req = Inl (Error ''terminated'')"
    using a q k preq f n x by (rule handler_try_provider_unreadable)
  have p: "req_method ?req = ''POST''" by (simp add: example_request_def)
  show ?thesis
    by (simp add: claude_handler_POST [OF p] h resp_ok_def)
qed

text \<open>
  Claim C7, amended: when the handler has authenticated the user, passed the quota
  check, found the API key and built the provider's request, and the provider answers
  with a status outside 200 to 299, then, if the text of the response can be read, the
  reply has status 500 and the error \<open>Internal server error\<close> when the provider's
  status is at least 500, and otherwise the provider's status and the error
  \<open>API request failed\<close>, and it is the same reply whatever the text and the JSON of
  the provider's response are; if the text cannot be read, the reply has status 500
  and the error \<open>Internal Server Error\<close>.
\<close>

theorem provider_error_relay:
  assumes "req_method req = ''POST''"
    and "authenticateUser e req = AuthSuccess u tier uid"
    and "allowed (checkUsageLimit uid tier)"
    and "CLAUDE_API_KEY e = Some key" and "key \<noteq> []"
    and "build_provider_request e req uid tier = Inr preq"
    and "fetch e preq = Inr resp"
    and "\<not> resp_ok resp"
  shows "(\<forall>rtext. resp_text resp = Inr rtext \<longrightarrow>
            res_status (claude_handler e req) =
              (if 500 \<le> resp_status resp then 500 else resp_status resp)
          \<and> res_body (claude_handler e req) =
              Some (JObj [(''error'', JStr (if 500 \<le> resp_status resp
                                            then ''Internal server error''
                                            else ''API request failed''))])
          \<and> (\<forall>t j. claude_handler
                      (e\<lparr>fetch := (\<lambda>q. Inr (resp\<lparr>resp_text := Inr t, resp_json := j\<rparr>))\<rparr>) req
                    = claude_handler e req))
       \<and> (\<forall>err. resp_text resp = Inl err \<longrightarrow>
            res_status (claude_handler e req) = 500
          \<and> res_body (claude_handler e req) =
              Some (JObj [(''error'', JStr ''Internal Server Error'')]))"
proof (intro conjI allI impI)
  fix err assume u: "resp_text resp = Inl err"
  have h: "handler_try e req = Inl err"
    using assms(2-8) u by (rule handler_try_provider_unreadable)
  show "res_status (claude_handler e req) = 500"
    and "res_body (claude_handler e req) =
              Some (JObj [(''error'', JStr ''Internal Server Error'')])"
    using h assms(1) by (simp_all add: claude_handler_POST)
next
  fix rtext assume r: "resp_text resp = Inr rtext"
  have h: "handler_try e req =
     Inr (if 500 \<le> resp_status resp then 500 else resp_status resp,
          JObj [(''error'', if 500 \<le> resp_status resp then JStr ''Internal server error''
                          else JStr ''API request failed'')])"
    using assms(2-8) r by (rule handler_try_provider_error)
  show "res_status (claude_handler e req) =
              (if 500 \<le> resp_status resp then 500 else resp_status resp)"
    and "res_body (claude_handler e req) =
              Some (JObj [(''error'', JStr (if 500 \<le> resp_status resp
                                            then ''Internal server error''
                                            else ''API request failed''))])"
    using h assms(1) by (simp_all add: claude_handler_POST)
  fix t j
  let ?e = "e\<lparr>fetch := (\<lambda>q. Inr (resp\<lparr>resp_text := Inr t, resp_json := j\<rparr>))\<rparr>"
  have "handler_try ?e req =
     Inr (if 500 \<le> resp_status (resp\<lparr>resp_text := Inr t, resp_json := j\<rparr>) then 500
          else resp_status (resp\<lparr>resp_text := Inr t, resp_json := j\<rparr>),
          JObj [(''error'', if 500 \<le> resp_status (resp\<lparr>resp_text := Inr t, resp_json := j\<rparr>)
                          then JStr ''Internal server error''
                          else JStr ''API request failed'')])"
    using assms(2-6,8)
    by (intro handler_try_provider_error
          [where u = u and key = key and preq = preq and rtext = t])
       (simp_all add: resp_ok_def)
  then have "handler_try ?e req = handler_try e req" using h by simp
  then show "claude_handler ?e req = claude_handler e req"
    using assms(1) by (simp add: claude_handler_POST)
qed


lemma authenticateUser_body [simp]:
  "authenticateUser e (req\<lparr>req_body := b\<rparr>) = authenticateUser e req"
  by (simp add: authenticateUser_def)

lemma build_provider_request_agree:
  assumes "\<forall>k. k \<noteq> ''userTier'' \<longrightarrow> map_of kvs k = map_of kvs' k"
  shows "build_provider_request e (req\<lparr>req_body := JObj kvs\<rparr>) uid tier
       = build_provider_request e (req\<lparr>req_body := JObj kvs'\<rparr>) uid tier"
proof -
  have g: "get_own (JObj kvs) k = get_own (JObj kvs') k" if "k \<noteq> ''userTier''" for k
    using assms that by simp
  show ?thesis
    by (simp add: build_provider_request_def Let_def js_or_def g
        del: get_own.simps JSON_stringify.simps)
qed

lemma handler_try_agree:
  assumes "\<forall>k. k \<noteq> ''userTier'' \<longrightarrow> map_of kvs k = map_of kvs' k"
  shows "handler_try e (req\<lparr>req_body := JObj kvs\<rparr>) = handler_try e (req\<lparr>req_body := JObj kvs'\<rparr>)"
  using build_provider_request_agree [OF assms]
  by (auto simp add: handler_try_def Let_def split: auth_result.split)

lemma claude_handler_agree:
  assumes "\<forall>k. k \<noteq> ''userTier'' \<longrightarrow> map_of kvs k = map_of kvs' k"
  shows "claude_handler e (req\<lparr>req_body := JObj kvs\<rparr>)
       = claude_handler e (req\<lparr>req_body := JObj kvs'\<rparr>)"
  using handler_try_agree [OF assms] by (simp add: claude_handler_def Let_def)

lemma getUserTier_truthy: "getUserTier u = Inr tier \<Longrightarrow> truthy tier"
  by (auto simp add: getUserTier_total split: if_splits)

lemma authenticateUser_tier:
  "authenticateUser e req = AuthSuccess u tier uid \<Longrightarrow>
   getUserTier u = Inr tier \<and> uid = user_id u"
  by (auto simp add: authenticateUser_def bind_err_def Let_def
      split: option.splits if_splits sum.splits)

lemma wire_updated_field:
  "v \<noteq> JUndefined \<Longrightarrow> get_own (wire (JObj (AList.update k v al))) k = wire v"
  by (induction al) auto

lemma relay_status_200:
  "relay_provider_response resp uid tier = Inr (200, payload) \<Longrightarrow>
   \<exists>al. payload = JObj (AList.update ''userTier'' tier al)"
  by (auto simp add: relay_provider_response_def resp_ok_def Let_def bind_err_def
      split: if_splits option.splits sum.splits)

lemma handler_try_status_200:
  assumes "authenticateUser e req = AuthSuccess u tier uid"
    and "handler_try e req = Inr (200, payload)"
  shows "allowed (checkUsageLimit uid tier) \<and> (\<exists>al. payload = JObj (AList.update ''userTier'' tier al))"
  using assms relay_status_200
  by (auto simp add: handler_try_def bind_err_def Let_def split: if_splits sum.splits)

lemma handler_try_not_allowed:
  assumes "authenticateUser e req = AuthSuccess u tier uid"
    and "\<not> allowed (checkUsageLimit uid tier)"
  shows "\<exists>payload. handler_try e req = Inr (429, payload)"
  using assms by (simp add: handler_try_def Let_def)

text \<open>
  Claim C8: two POST requests whose bodies are objects that agree on every field but
  \<open>userTier\<close> get the same reply and the same authentication result; the tier of
  that result is the tier derived from the user record, the quota check on it decides
  the status 429, and a reply with status 200 carries it as \<open>userTier\<close>.
\<close>

theorem client_userTier_ignored:
  assumes "\<forall>k. k \<noteq> ''userTier'' \<longrightarrow> map_of kvs k = map_of kvs' k"
    and "req_method req = ''POST''"
  shows "claude_handler e (req\<lparr>req_body := JObj kvs\<rparr>)
           = claude_handler e (req\<lparr>req_body := JObj kvs'\<rparr>)
       \<and> authenticateUser e (req\<lparr>req_body := JObj kvs\<rparr>)
           = authenticateUser e (req\<lparr>req_body := JObj kvs'\<rparr>)
       \<and> (\<forall>u tier uid.
             authenticateUser e (req\<lparr>req_body := JObj kvs\<rparr>) = AuthSuccess u tier uid \<longrightarrow>
               getUserTier u = Inr tier
             \<and> (\<not> allowed (checkUsageLimit uid tier) \<longrightarrow>
                  res_status (claude_handler e (req\<lparr>req_body := JObj kvs\<rparr>)) = 429)
             \<and> (res_status (claude_handler e (req\<lparr>req_body := JObj kvs\<rparr>)) = 200 \<longrightarrow>
                  allowed (checkUsageLimit uid tier)
                \<and> (\<exists>b. res_body (claude_handler e (req\<lparr>req_body := JObj kvs\<rparr>)) = Some b
                       \<and> get_own b ''userTier'' = wire tier)))"
proof (intro conjI allI impI)
  show "claude_handler e (req\<lparr>req_body := JObj kvs\<rparr>)
           = claude_handler e (req\<lparr>req_body := JObj kvs'\<rparr>)"
    using assms(1) by (rule claude_handler_agree)
next
  show "authenticateUser e (req\<lparr>req_body := JObj kvs\<rparr>)
           = authenticateUser e (req\<lparr>req_body := JObj kvs'\<rparr>)"
    by simp
next
  fix u tier uid
  assume a: "authenticateUser e (req\<lparr>req_body := JObj kvs\<rparr>) = AuthSuccess u tier uid"
  let ?req = "req\<lparr>req_body := JObj kvs\<rparr>"
  have p: "req_method ?req = ''POST''" using assms(2) by simp
  show t: "getUserTier u = Inr tier"
    using authenticateUser_tier [OF a] by simp
  {
    assume "\<not> allowed (checkUsageLimit uid tier)"
    then obtain payload where "handler_try e ?req = Inr (429, payload)"
      using handler_try_not_allowed [OF a] by blast
    then show "res_status (claude_handler e ?req) = 429"
      by (simp add: claude_handler_POST [OF p])
  }
  {
    assume s: "res_status (claude_handler e ?req) = 200"
    then obtain payload where h: "handler_try e ?req = Inr (200, payload)"
      by (auto simp add: claude_handler_POST [OF p] split: sum.splits)
    from handler_try_status_200 [OF a h] obtain al where
      al: "allowed (checkUsageLimit uid tier)" "payload = JObj (AList.update ''userTier'' tier al)"
      by blast
    show "allowed (checkUsageLimit uid tier)" by (rule al(1))
    have "tier \<noteq> JUndefined" using getUserTier_truthy [OF t] by auto
    then have "get_own (wire payload) ''userTier'' = wire tier"
      unfolding al(2) by (rule wire_updated_field)
    then show "\<exists>b. res_body (claude_handler e ?req) = Some b \<and> get_own b ''userTier'' = wire tier"
      using h by (simp add: claude_handler_POST [OF p])
  }
qed

section \<open>The chat proxy endpoint on the example data\<close>

lemma example_session_auth:
  assumes "getUserTier (example_user pm) = Inr tier" and "to_string tier = Inr s"
  shows "authenticateUser (example_env (example_user pm) resp) (example_request ''sess_1'' b)
       = AuthSuccess (example_user pm) tier ''user_1''"
  using assms
  by (simp add: authenticateUser_def try_session_def example_env_def example_clerk_def
      example_request_def bind_err_def startsWith_def)
    (simp add: example_user_def)

lemma example_build_request:
  "\<exists>preq. build_provider_request (example_env u resp)
            (example_request token (JObj [(''messages'', JArr [])])) uid tier = Inr preq"
  by (simp add: build_provider_request_def example_env_def example_request_def js_or_def
      with_default_def bind_err_def appendProfileToSystem_def Let_def)

theorem provider_error_relay_witness:
  "res_status (claude_handler
      (example_env (example_user (JObj []))
         \<lparr>resp_status = 503, resp_text = Inr ''overloaded'', resp_json = None\<rparr>)
      (example_request ''sess_1'' (JObj [(''messages'', JArr [])]))) = 500
   \<and> res_body (claude_handler
      (example_env (example_user (JObj []))
         \<lparr>resp_status = 503, resp_text = Inr ''overloaded'', resp_json = None\<rparr>)
      (example_request ''sess_1'' (JObj [(''messages'', JArr [])])))
     = Some (JObj [(''error'', JStr ''Internal server error'')])
   \<and> res_status (claude_handler
      (example_env (example_user (JObj []))
         \<lparr>resp_status = 404, resp_text = Inr ''no such model'', resp_json = None\<rparr>)
      (example_request ''sess_1'' (JObj [(''messages'', JArr [])]))) = 404
   \<and> res_body (claude_handler
      (example_env (example_user (JObj []))
         \<lparr>resp_status = 404, resp_text = Inr ''no such model'', resp_json = None\<rparr>)
      (example_request ''sess_1'' (JObj [(''messages'', JArr [])])))
     = Some (JObj [(''error'', JStr ''API request failed'')])
   \<and> res_status (claude_handler
      (example_env (example_user (JObj []))
         \<lparr>resp_status = 404, resp_text = Inl (Error ''terminated''), resp_json = None\<rparr>)
      (example_request ''sess_1'' (JObj [(''messages'', JArr [])]))) = 500"
proof -
  let ?u = "example_user (JObj [])"
  let ?req = "example_request ''sess_1'' (JObj [(''messages'', JArr [])])"
  have t: "getUserTier ?u = Inr (JStr ''free'')"
    by (simp add: getUserTier_total example_user_def endsWith_def)
  have p: "req_method ?req = ''POST''" by (simp add: example_request_def)
  have q: "allowed (checkUsageLimit ''user_1'' (JStr ''free''))"
    by (simp add: checkUsageLimit_free)
  have w: "(\<forall>rtext. resp_text resp = Inr rtext \<longrightarrow>
              res_status (claude_handler (example_env ?u resp) ?req)
                = (if 500 \<le> resp_status resp then 500 else resp_status resp)
            \<and> res_body (claude_handler (example_env ?u resp) ?req)
                = Some (JObj [(''error'', JStr (if 500 \<le> resp_status resp
                                            then ''Internal server error''
                                            else ''API request failed''))]))
         \<and> (\<forall>err. resp_text resp = Inl err \<longrightarrow>
              res_status (claude_handler (example_env ?u resp) ?req) = 500)"
    if "\<not> resp_ok resp" for resp
  proof -
    have a: "authenticateUser (example_env ?u resp) ?req
               = AuthSuccess ?u (JStr ''free'') ''user_1''"
      using t by (rule example_session_auth) simp
    obtain preq where
      b: "build_provider_request (example_env ?u resp) ?req ''user_1'' (JStr ''free'') = Inr preq"
      using example_build_request by blast
    have k: "CLAUDE_API_KEY (example_env ?u resp) = Some ''sk-test''" "''sk-test'' \<noteq> []"
      by (simp_all add: example_env_def)
    have f: "fetch (example_env ?u resp) preq = Inr resp"
      by (simp add: example_env_def)
    from provider_error_relay [OF p a q k b f that] show ?thesis by blast
  qed
  show ?thesis
    using w [of "\<lparr>resp_status = 503, resp_text = Inr ''overloaded'', resp_json = None\<rparr>"]
      w [of "\<lparr>resp_status = 404, resp_text = Inr ''no such model'', resp_json = None\<rparr>"]
      w [of "\<lparr>resp_status = 404, resp_text = Inl (Error ''terminated''), resp_json = None\<rparr>"]
    by (simp add: resp_ok_def)
qed

theorem client_userTier_ignored_witness:
  "claude_handler
      (example_env (example_user (JObj [(''tier'', JStr ''beta'')]))
         \<lparr>resp_status = 200, resp_text = Inr ''{\"id\":\"msg_1\"}'',
          resp_json = Some (JObj [(''id'', JStr ''msg_1'')])\<rparr>)
      (example_request ''sess_1''
         (JObj [(''messages'', JArr []), (''userTier'', JStr ''premium'')]))
   = claude_handler
      (example_env (example_user (JObj [(''tier'', JStr ''beta'')]))
         \<lparr>resp_status = 200, resp_text = Inr ''{\"id\":\"msg_1\"}'',
          resp_json = Some (JObj [(''id'', JStr ''msg_1'')])\<rparr>)
      (example_request ''sess_1'' (JObj [(''messages'', JArr [])]))
   \<and> res_body (claude_handler
      (example_env (example_user (JObj [(''tier'', JStr ''beta'')]))
         \<lparr>resp_status = 200, resp_text = Inr ''{\"id\":\"msg_1\"}'',
          resp_json = Some (JObj [(''id'', JStr ''msg_1'')])\<rparr>)
      (example_request ''sess_1'' (JObj [(''messages'', JArr [])])))
     = Some (JObj [(''id'', JStr ''msg_1''),
                   (''usage'', JObj [(''used'', JNum 0), (''limit'', JNum 25)]),
                   (''userTier'', JStr ''beta'')])"
proof -
  let ?u = "example_user (JObj [(''tier'', JStr ''beta'')])"
  let ?resp = "\<lparr>resp_status = 200, resp_text = Inr ''{\"id\":\"msg_1\"}'',
          resp_json = Some (JObj [(''id'', JStr ''msg_1'')])\<rparr>"
  let ?e = "example_env ?u ?resp"
  let ?kvs = "[(''messages'', JArr []), (''userTier'', JStr ''premium'')]"
  let ?kvs' = "[(''messages'', JArr [])]"
  let ?req = "example_request ''sess_1'' (JObj ?kvs')"
  have agree: "\<forall>k. k \<noteq> ''userTier'' \<longrightarrow> map_of ?kvs k = map_of ?kvs' k"
    by simp
  have p: "req_method ?req = ''POST''" by (simp add: example_request_def)
  have r1: "?req\<lparr>req_body := JObj ?kvs\<rparr> = example_request ''sess_1'' (JObj ?kvs)"
    and r2: "?req\<lparr>req_body := JObj ?kvs'\<rparr> = ?req"
    by (simp_all add: example_request_def)
  have eq: "claude_handler ?e (example_request ''sess_1'' (JObj ?kvs)) = claude_handler ?e ?req"
    using client_userTier_ignored [OF agree p, of ?e] unfolding r1 r2 by blast
  have t: "getUserTier ?u = Inr (JStr ''beta'')"
    by (simp add: getUserTier_total example_user_def)
  have a: "authenticateUser ?e ?req = AuthSuccess ?u (JStr ''beta'') ''user_1''"
    using t by (rule example_session_auth) simp
  obtain preq where
    b: "build_provider_request ?e ?req ''user_1'' (JStr ''beta'') = Inr preq"
    using example_build_request by blast
  have f: "fetch ?e preq = Inr ?resp" by (simp add: example_env_def)
  have k: "CLAUDE_API_KEY ?e = Some ''sk-test''" by (simp add: example_env_def)
  have h: "handler_try ?e ?req =
      Inr (200, JObj [(''id'', JStr ''msg_1''),
                      (''usage'', JObj [(''used'', JNum 0), (''limit'', JNum 25)]),
                      (''userTier'', JStr ''beta'')])"
    by (simp add: handler_try_def a b f k checkUsageLimit_beta bind_err_def
        relay_provider_response_def resp_ok_def)
  show ?thesis
    using eq h by (simp add: claude_handler_POST [OF p])
qed

end
